theory Spec2Isabelle
  imports Complex_Main
begin

section \<open>Machine arithmetic\<close>

subsection \<open>Binary64 doubles\<close>

text \<open>
  A C \<^verbatim>\<open>double\<close> is modelled by the real number it denotes. Every arithmetic operation
  of the source is the exact operation followed by \<open>rnd\<close>, rounding to the nearest
  number with a 53-bit significand, ties to the even significand, with gradual underflow
  at \<open>2 ^ - 1074\<close> (IEEE 754 binary64, as SSE2 code computes it, without fused
  multiply-add). Comparisons are exact. Infinities, NaN, the sign of zero and overflow
  beyond the largest finite double are not represented.
\<close>

type_synonym double = real

function bitlen :: "int \<Rightarrow> int" where
  "bitlen k = (if k \<le> 0 then 0 else 1 + bitlen (k div 2))"
  by pat_completeness auto
termination
  by (relation "measure nat") auto

declare bitlen.simps [simp del]

definition pow2 :: "int \<Rightarrow> real" where
  "pow2 e = (if 0 \<le> e then 2 ^ nat e else 1 / 2 ^ nat (- e))"

text \<open>\<open>ilog2 x\<close> is the binary exponent of a non-zero \<open>x\<close>: \<open>2 ^ ilog2 x \<le> \<bar>x\<bar> < 2 ^ (ilog2 x + 1)\<close>.\<close>

definition ilog2 :: "real \<Rightarrow> int" where
  "ilog2 x = (if 1 \<le> \<bar>x\<bar> then bitlen \<lfloor>\<bar>x\<bar>\<rfloor> - 1
              else - bitlen (\<lceil>1 / \<bar>x\<bar>\<rceil> - 1))"

definition round_even :: "real \<Rightarrow> int" where
  "round_even y =
     (if y - of_int \<lfloor>y\<rfloor> < 1 / 2 then \<lfloor>y\<rfloor>
      else if 1 / 2 < y - of_int \<lfloor>y\<rfloor> then \<lfloor>y\<rfloor> + 1
      else if even \<lfloor>y\<rfloor> then \<lfloor>y\<rfloor> else \<lfloor>y\<rfloor> + 1)"

definition rnd :: "real \<Rightarrow> double" where
  "rnd x = (if x = 0 then 0
            else of_int (round_even (x / pow2 (max (ilog2 x - 52) (- 1074))))
                 * pow2 (max (ilog2 x - 52) (- 1074)))"

definition fadd :: "double \<Rightarrow> double \<Rightarrow> double" where
  "fadd x y = rnd (x + y)"

definition fsub :: "double \<Rightarrow> double \<Rightarrow> double" where
  "fsub x y = rnd (x - y)"

definition fmul :: "double \<Rightarrow> double \<Rightarrow> double" where
  "fmul x y = rnd (x * y)"

definition fdiv :: "double \<Rightarrow> double \<Rightarrow> double" where
  "fdiv x y = rnd (x / y)"

subsection \<open>Integers\<close>

text \<open>
  \<^verbatim>\<open>long\<close> and \<^verbatim>\<open>int\<close> values are unbounded integers: signed overflow and an
  out-of-range conversion from \<^verbatim>\<open>double\<close> are undefined in C, so the model describes
  the executions that stay in range. \<open>of_long\<close> is the conversion to \<^verbatim>\<open>double\<close>,
  \<open>to_long\<close> the cast \<^verbatim>\<open>(long) x\<close>, which truncates toward zero, as do integer
  division and remainder.
\<close>

definition of_long :: "int \<Rightarrow> double" where
  "of_long k = rnd (of_int k)"

definition to_long :: "double \<Rightarrow> int" where
  "to_long x = (if 0 \<le> x then \<lfloor>x\<rfloor> else \<lceil>x\<rceil>)"

definition cdiv :: "int \<Rightarrow> int \<Rightarrow> int" where
  "cdiv a b = sgn a * sgn b * (\<bar>a\<bar> div \<bar>b\<bar>)"

definition crem :: "int \<Rightarrow> int \<Rightarrow> int" where
  "crem a b = a - b * cdiv a b"

subsection \<open>The C library\<close>

text \<open>
  The library functions the source calls, as far as it uses them. A string is the list of
  the characters before its terminating NUL. The conversions \<^verbatim>\<open>%d\<close> and \<^verbatim>\<open>%ld\<close> of
  \<^verbatim>\<open>sscanf\<close> (and \<^verbatim>\<open>atoi\<close>) skip white space and read an optional sign and decimal
  digits. A conversion returns the value and the rest of the input, or \<open>None\<close> when
  nothing matches. Integers beyond the range of their type are not represented.
\<close>

definition isspace :: "char \<Rightarrow> bool" where
  "isspace c = (c = CHR '' '' \<or> (9 \<le> (of_char c :: nat) \<and> (of_char c :: nat) \<le> 13))"

definition isdigit :: "char \<Rightarrow> bool" where
  "isdigit c = (48 \<le> (of_char c :: nat) \<and> (of_char c :: nat) \<le> 57)"

definition digit_val :: "char \<Rightarrow> int" where
  "digit_val c = int (of_char c) - 48"

definition digits_val :: "string \<Rightarrow> int" where
  "digits_val ds = foldl (\<lambda>a c. 10 * a + digit_val c) 0 ds"

definition pow10 :: "int \<Rightarrow> real" where
  "pow10 e = (if 0 \<le> e then 10 ^ nat e else 1 / 10 ^ nat (- e))"

definition scan_sign :: "string \<Rightarrow> bool \<times> string" where
  "scan_sign s =
     (case s of
        [] \<Rightarrow> (False, [])
      | c # r \<Rightarrow> if c = CHR ''-'' then (True, r) else if c = CHR ''+'' then (False, r) else (False, s))"

definition scan_int :: "string \<Rightarrow> (int \<times> string) option" where
  "scan_int s =
     (case scan_sign (dropWhile isspace s) of
        (neg, r) \<Rightarrow>
          if takeWhile isdigit r = [] then None
          else Some (if neg then - digits_val (takeWhile isdigit r)
                     else digits_val (takeWhile isdigit r),
                     dropWhile isdigit r))"

definition atoi :: "string \<Rightarrow> int" where
  "atoi s = (case scan_int s of None \<Rightarrow> 0 | Some (v, r) \<Rightarrow> v)"

text \<open>A literal character of a format, and the conversion \<^verbatim>\<open>%c\<close>.\<close>

definition scan_lit :: "char \<Rightarrow> string \<Rightarrow> string option" where
  "scan_lit c s = (case s of [] \<Rightarrow> None | d # r \<Rightarrow> if d = c then Some r else None)"

definition scan_char :: "string \<Rightarrow> (char \<times> string) option" where
  "scan_char s = (case s of [] \<Rightarrow> None | d # r \<Rightarrow> Some (d, r))"

text \<open>
  The conversion \<^verbatim>\<open>%x\<close> into an \<^verbatim>\<open>unsigned int\<close>: an optional sign, an optional
  \<^verbatim>\<open>0x\<close> and hexadecimal digits, modulo \<open>2 ^ 32\<close>.
\<close>

definition xdigit_val :: "char \<Rightarrow> int option" where
  "xdigit_val c =
     map_of (zip ''0123456789abcdefABCDEF''
               [0, 1, 2, 3, 4, 5, 6, 7, 8, 9, 10, 11, 12, 13, 14, 15, 10, 11, 12, 13, 14, 15]) c"

definition isxdigit :: "char \<Rightarrow> bool" where
  "isxdigit c = (xdigit_val c \<noteq> None)"

definition xdigits_val :: "string \<Rightarrow> int" where
  "xdigits_val ds = foldl (\<lambda>a c. 16 * a + the (xdigit_val c)) 0 ds"

definition skip_0x :: "string \<Rightarrow> string" where
  "skip_0x s =
     (case s of
        c # d # e # r \<Rightarrow>
          if c = CHR ''0'' \<and> (d = CHR ''x'' \<or> d = CHR ''X'') \<and> isxdigit e then e # r else s
      | _ \<Rightarrow> s)"

definition scan_hex :: "string \<Rightarrow> (int \<times> string) option" where
  "scan_hex s =
     (case scan_sign (dropWhile isspace s) of
        (neg, r) \<Rightarrow>
          if takeWhile isxdigit (skip_0x r) = [] then None
          else Some ((if neg then - xdigits_val (takeWhile isxdigit (skip_0x r))
                      else xdigits_val (takeWhile isxdigit (skip_0x r))) mod 2 ^ 32,
                     dropWhile isxdigit (skip_0x r)))"

text \<open>
  Output conversions of \<^verbatim>\<open>sprintf\<close>: \<^verbatim>\<open>%d\<close>, \<^verbatim>\<open>%<w>d\<close>, \<^verbatim>\<open>%0<w>d\<close>, \<^verbatim>\<open>%<w>x\<close> and
  \<^verbatim>\<open>%0<w>.<p>f\<close>, which prints the exact value of the double rounded to \<open>p\<close> decimals,
  ties to even. The destination is a string of any length: the model has no buffer to
  overrun.
\<close>

definition digit_char :: "nat \<Rightarrow> char" where
  "digit_char n = ''0123456789abcdef'' ! n"

fun show_nat :: "nat \<Rightarrow> string" where
  "show_nat n = (if n < 10 then [digit_char n] else show_nat (n div 10) @ [digit_char (n mod 10)])"

declare show_nat.simps [simp del]

fun show_hex :: "nat \<Rightarrow> string" where
  "show_hex n = (if n < 16 then [digit_char n] else show_hex (n div 16) @ [digit_char (n mod 16)])"

declare show_hex.simps [simp del]

definition pad_left :: "char \<Rightarrow> nat \<Rightarrow> string \<Rightarrow> string" where
  "pad_left c w s = replicate (w - length s) c @ s"

definition fmt_d :: "int \<Rightarrow> string" where
  "fmt_d n = (if n < 0 then CHR ''-'' # show_nat (nat (- n)) else show_nat (nat n))"

definition fmt_wd :: "nat \<Rightarrow> int \<Rightarrow> string" where
  "fmt_wd w n = pad_left (CHR '' '') w (fmt_d n)"

definition fmt_0d :: "nat \<Rightarrow> int \<Rightarrow> string" where
  "fmt_0d w n =
     (if n < 0 then CHR ''-'' # pad_left (CHR ''0'') (w - 1) (show_nat (nat (- n)))
      else pad_left (CHR ''0'') w (show_nat (nat n)))"

definition fmt_wx :: "nat \<Rightarrow> int \<Rightarrow> string" where
  "fmt_wx w n = pad_left (CHR '' '') w (show_hex (nat n))"

definition fmt_digits :: "nat \<Rightarrow> nat \<Rightarrow> string" where
  "fmt_digits p n =
     show_nat (n div 10 ^ p)
     @ (if p = 0 then [] else CHR ''.'' # pad_left (CHR ''0'') p (show_nat (n mod 10 ^ p)))"

definition fmt_f :: "nat \<Rightarrow> nat \<Rightarrow> double \<Rightarrow> string" where
  "fmt_f w p v =
     (if v < 0
      then CHR ''-'' # pad_left (CHR ''0'') (w - 1) (fmt_digits p (nat (round_even (\<bar>v\<bar> * 10 ^ p))))
      else pad_left (CHR ''0'') w (fmt_digits p (nat (round_even (\<bar>v\<bar> * 10 ^ p)))))"

text \<open>\<^verbatim>\<open>pow (10.0, (double) -dec)\<close>, taken as correctly rounded.\<close>

definition pow10d :: "int \<Rightarrow> double" where
  "pow10d dec = rnd (pow10 (- dec))"

definition toupper :: "char \<Rightarrow> char" where
  "toupper c =
     (case map_of (zip ''abcdefghijklmnopqrstuvwxyz'' ''ABCDEFGHIJKLMNOPQRSTUVWXYZ'') c of
        Some u \<Rightarrow> u
      | None \<Rightarrow> c)"

definition tolower :: "char \<Rightarrow> char" where
  "tolower c =
     (case map_of (zip ''ABCDEFGHIJKLMNOPQRSTUVWXYZ'' ''abcdefghijklmnopqrstuvwxyz'') c of
        Some l \<Rightarrow> l
      | None \<Rightarrow> c)"

text \<open>
  \<^verbatim>\<open>s[n]\<close>: the character at index \<open>n\<close>, and the terminating NUL at the end. The source
  also indexes short strings beyond their NUL; the model reads a NUL there.
\<close>

definition cidx :: "string \<Rightarrow> nat \<Rightarrow> char" where
  "cidx s n = (if n < length s then s ! n else CHR 0x00)"

text \<open>
  Floating numbers. \<^verbatim>\<open>%lg\<close> of \<^verbatim>\<open>sscanf\<close>, and \<^verbatim>\<open>strtod\<close>, by which \<^verbatim>\<open>atof\<close> converts,
  skip white space, read an optional sign and then a decimal number (digits with an
  optional point, and an optional exponent after \<^verbatim>\<open>e\<close>), a hexadecimal number (\<^verbatim>\<open>0x\<close>,
  hexadecimal digits with an optional point, and an optional binary exponent after
  \<^verbatim>\<open>p\<close>), or one of the words \<^verbatim>\<open>inf\<close>, \<^verbatim>\<open>infinity\<close> and \<^verbatim>\<open>nan\<close>, in either case of the
  letters. A number is rounded to the nearest double, and an exponent without digits
  counts as none. The words convert to an infinity or a NaN, and so does a number that
  rounds to \<open>2 ^ 1024\<close> or beyond; no double of the model is an infinity or a NaN, and
  the outcome of the conversion is then \<open>Nonfinite\<close>. \<open>Unmatched\<close> is the outcome of
  an input that converts to nothing. Every \<^verbatim>\<open>%lg\<close> of the source ends its format and
  \<^verbatim>\<open>atof\<close> drops what it has not read, so the rest of the input is not returned.

  The two functions differ where the input breaks off, and are modelled as the GNU C
  library has them. \<^verbatim>\<open>sscanf\<close> reads on as long as the input can still become a number
  and converts what it has read: after \<^verbatim>\<open>0x\<close> it is committed to a hexadecimal number
  (\<^verbatim>\<open>0x\<close> alone converts to nothing, \<^verbatim>\<open>0x.\<close> to 0), after an \<^verbatim>\<open>n\<close> to \<^verbatim>\<open>nan\<close>, after an
  \<^verbatim>\<open>i\<close> to \<^verbatim>\<open>inf\<close>, and after \<^verbatim>\<open>infi\<close> to \<^verbatim>\<open>infinity\<close>. \<^verbatim>\<open>strtod\<close> converts the longest
  prefix that is a number: it reads \<^verbatim>\<open>0x\<close> without a hexadecimal digit as the decimal 0.
\<close>

datatype scanned = Unmatched | Number double | Nonfinite

text \<open>\<open>imatch p s\<close>: the input \<open>s\<close> begins with the lower case letters \<open>p\<close>, in either case.\<close>

fun imatch :: "string \<Rightarrow> string \<Rightarrow> bool" where
  "imatch [] s = True"
| "imatch (p # ps) [] = False"
| "imatch (p # ps) (c # cs) = ((c = p \<or> c = toupper p) \<and> imatch ps cs)"

text \<open>
  The digits before the point, the digits after it and the rest of the input; and the
  exponent that the rest begins with, after the letter \<open>e\<close> in either case.
\<close>

definition mantissa :: "(char \<Rightarrow> bool) \<Rightarrow> string \<Rightarrow> string \<times> string \<times> string" where
  "mantissa dig s =
     (case dropWhile dig s of
        [] \<Rightarrow> (takeWhile dig s, [], [])
      | c # r \<Rightarrow>
          if c = CHR ''.'' then (takeWhile dig s, takeWhile dig r, dropWhile dig r)
          else (takeWhile dig s, [], c # r))"

definition scan_exp :: "char \<Rightarrow> string \<Rightarrow> int" where
  "scan_exp e s =
     (case s of
        [] \<Rightarrow> 0
      | c # r \<Rightarrow>
          if c = e \<or> c = toupper e
          then (case scan_sign r of
                  (neg, r1) \<Rightarrow>
                    if neg then - digits_val (takeWhile isdigit r1)
                    else digits_val (takeWhile isdigit r1))
          else 0)"

text \<open>The double nearest to a real number, where there is one.\<close>

definition to_double :: "real \<Rightarrow> scanned" where
  "to_double v = (if \<bar>rnd v\<bar> < 2 ^ 1024 then Number (rnd v) else Nonfinite)"

definition scan_decimal :: "bool \<Rightarrow> string \<Rightarrow> scanned" where
  "scan_decimal neg s =
     (case mantissa isdigit s of
        (ip, fp, r) \<Rightarrow>
          if ip = [] \<and> fp = [] then Unmatched
          else to_double ((if neg then - 1 else 1) * of_int (digits_val (ip @ fp))
                          * pow10 (scan_exp (CHR ''e'') r - int (length fp))))"

definition scan_hexadecimal :: "bool \<Rightarrow> string \<Rightarrow> scanned" where
  "scan_hexadecimal neg s =
     (case mantissa isxdigit s of
        (ip, fp, r) \<Rightarrow>
          if ip = [] \<and> fp = [] then Unmatched
          else to_double ((if neg then - 1 else 1) * of_int (xdigits_val (ip @ fp))
                          * pow2 (scan_exp (CHR ''p'') r - 4 * int (length fp))))"

definition scan_double :: "string \<Rightarrow> scanned" where
  "scan_double s =
     (case scan_sign (dropWhile isspace s) of
        (neg, r) \<Rightarrow>
          if imatch ''n'' r then (if imatch ''nan'' r then Nonfinite else Unmatched)
          else if imatch ''i'' r
          then (if (if imatch ''i'' (drop 3 r) then imatch ''infinity'' r else imatch ''inf'' r)
                then Nonfinite
                else Unmatched)
          else if imatch ''0x'' r
          then (if scan_hexadecimal neg (drop 2 r) = Unmatched
                then (if imatch ''.'' (drop 2 r) then Number 0 else Unmatched)
                else scan_hexadecimal neg (drop 2 r))
          else scan_decimal neg r)"

definition strtod :: "string \<Rightarrow> scanned" where
  "strtod s =
     (case scan_sign (dropWhile isspace s) of
        (neg, r) \<Rightarrow>
          if imatch ''inf'' r then Nonfinite
          else if imatch ''nan'' r then Nonfinite
          else if imatch ''0x'' r
          then (if scan_hexadecimal neg (drop 2 r) = Unmatched then scan_decimal neg r
                else scan_hexadecimal neg (drop 2 r))
          else scan_decimal neg r)"

text \<open>
  A double that is an infinity or a NaN is either not used by the source or converted to
  \<^verbatim>\<open>long\<close> on its way (in \<^verbatim>\<open>set\<close> and in \<^verbatim>\<open>setmyleaps\<close>), which is undefined. As for the
  integers out of range, the model describes the executions that stay clear of that:
  where a conversion is \<open>Nonfinite\<close> its functions go on as if nothing had been
  converted, and say nothing of the source. \<^verbatim>\<open>atof\<close> returns 0 where nothing converts.
\<close>

definition atof :: "string \<Rightarrow> double" where
  "atof s = (case strtod s of Unmatched \<Rightarrow> 0 | Number v \<Rightarrow> v | Nonfinite \<Rightarrow> 0)"

section \<open>XTime\<close>

subsection \<open>Constants and data\<close>

definition MJD0 :: double where
  "MJD0 = 4800001 / 2"

definition MJD1972 :: int where
  "MJD1972 = 41317"

definition DAY2SEC :: double where
  "DAY2SEC = 86400"

definition SEC2DAY :: double where
  "SEC2DAY = fdiv 1 DAY2SEC"

definition MJDREFint :: int where
  "MJDREFint = 50814"

definition MJDREFfr :: double where
  "MJDREFfr = 0"

definition REFLEAPS :: double where
  "REFLEAPS = 31"

definition TAI2TT :: double where
  "TAI2TT = rnd (32184 / 1000)"

datatype TimeSys = MET | TT | UTC | TAI

datatype TimeFormat = SECS | JD | MJD | DATE | CALDATE | FITS

record XTime =
  MJDint :: int
  MJDfr :: double
  timeZero :: double
  tdate :: string
  MJDrefint :: int
  MJDreffr :: double
  leapflag :: int
  myLeaps :: double
  refLeaps :: double

subsection \<open>Inline accessors of XTime.h\<close>

definition getMET :: "XTime \<Rightarrow> double" where
  "getMET t =
     fmul (fadd (fadd (of_long (MJDint t - MJDrefint t)) (fsub (MJDfr t) (MJDreffr t)))
                (timeZero t))
          DAY2SEC"

definition getTT :: "XTime \<Rightarrow> double" where
  "getTT t = getMET t"

definition getTAI :: "XTime \<Rightarrow> double" where
  "getTAI t = getMET t"

definition getUTC :: "XTime \<Rightarrow> double" where
  "getUTC t =
     fadd (fsub (fmul (fadd (fadd (of_long (MJDint t - MJDrefint t))
                                  (fsub (MJDfr t) (MJDreffr t)))
                            (timeZero t))
                      DAY2SEC)
                (myLeaps t))
          (refLeaps t)"

definition getTZero :: "XTime \<Rightarrow> double" where
  "getTZero t = fmul (timeZero t) DAY2SEC"

definition TTmjd :: "XTime \<Rightarrow> double" where
  "TTmjd t = fadd (fadd (of_long (MJDint t)) (MJDfr t)) (timeZero t)"

definition TAImjd :: "XTime \<Rightarrow> double" where
  "TAImjd t = fsub (TTmjd t) (fmul TAI2TT SEC2DAY)"

text \<open>The two-argument forms also fill \<^verbatim>\<open>*mjdi\<close> and \<^verbatim>\<open>*mjdf\<close>; the model returns the pair written.\<close>

definition TTmjd2 :: "XTime \<Rightarrow> int \<times> double" where
  "TTmjd2 t = (MJDint t, MJDfr t)"

definition TAImjd2 :: "XTime \<Rightarrow> int \<times> double" where
  "TAImjd2 t = (MJDint t, fsub (MJDfr t) (fmul TAI2TT SEC2DAY))"

definition UTmjd2 :: "XTime \<Rightarrow> int \<times> double" where
  "UTmjd2 t =
     (let k = MJDint t;
          x = fsub (fadd (MJDfr t) (timeZero t)) (fmul (fadd TAI2TT (myLeaps t)) SEC2DAY)
      in if x < 0 then (k - 1, fadd x 1)
         else if 1 \<le> x then (k + 1, fsub x 1)
         else (k, x))"

definition UTmjd :: "XTime \<Rightarrow> double" where
  "UTmjd t = (case UTmjd2 t of (k, x) \<Rightarrow> fadd (of_long k) x)"

definition TTjd :: "XTime \<Rightarrow> double" where
  "TTjd t = fadd (TTmjd t) MJD0"

definition TAIjd :: "XTime \<Rightarrow> double" where
  "TAIjd t = fadd (TAImjd t) MJD0"

definition UTjd :: "XTime \<Rightarrow> double" where
  "UTjd t = fadd (UTmjd t) MJD0"

subsection \<open>XTime::get\<close>

text \<open>
  The \<^verbatim>\<open>JD\<close> case adds \<^verbatim>\<open>MJD0\<close> and falls through to \<^verbatim>\<open>MJD\<close>, whose inner switch
  falls from \<^verbatim>\<open>UTC\<close> through \<^verbatim>\<open>TAI\<close> to the common last line. \<open>get_mjd\<close> is that
  inner switch, started at the value \<open>tt\<close> accumulated so far.
\<close>

definition get_mjd :: "XTime \<Rightarrow> TimeSys \<Rightarrow> double \<Rightarrow> double" where
  "get_mjd t ts tt =
     (let tt1 = (if ts = UTC then fsub tt (fmul (myLeaps t) SEC2DAY) else tt);
          tt2 = (if ts = UTC \<or> ts = TAI then fsub tt1 (fmul TAI2TT SEC2DAY) else tt1)
      in fadd tt2 (fadd (of_long (MJDint t)) (MJDfr t)))"

definition get :: "XTime \<Rightarrow> TimeSys \<Rightarrow> TimeFormat \<Rightarrow> double" where
  "get t ts tf =
     (case tf of
        SECS \<Rightarrow> (case ts of UTC \<Rightarrow> getUTC t | TT \<Rightarrow> getTT t | TAI \<Rightarrow> getTAI t | MET \<Rightarrow> getMET t)
      | JD \<Rightarrow> get_mjd t ts (fadd (timeZero t) MJD0)
      | MJD \<Rightarrow> get_mjd t ts (timeZero t)
      | _ \<Rightarrow> timeZero t)"

text \<open>
  \<^verbatim>\<open>mjd (&mjdi, &mjdf, ts)\<close> returns the pair it writes. It has no case for
  \<^verbatim>\<open>MET\<close> and then writes nothing: \<open>kx\<close> is what its two targets held before.
\<close>

definition mjd :: "XTime \<Rightarrow> TimeSys \<Rightarrow> int \<times> double \<Rightarrow> int \<times> double" where
  "mjd t ts kx = (case ts of TT \<Rightarrow> TTmjd2 t | TAI \<Rightarrow> TAImjd2 t | UTC \<Rightarrow> UTmjd2 t | MET \<Rightarrow> kx)"

subsection \<open>The leap second table\<close>

text \<open>
  The static members of the class are one record. \<open>globals0\<close> is their value at program
  start: the arrays of 100 entries hold the 26 leap seconds known when the code was
  written and zeros after them, and \<^verbatim>\<open>NUMLEAPSECS\<close> is 0 until the first
  \<^verbatim>\<open>setleaps\<close>.
\<close>

record globals =
  NUMOBJECTS :: int
  NUMLEAPSECS :: int
  LEAPSMJD :: "int list"
  LEAPSECS :: "double list"
  WALLCLOCK0 :: int

definition globals0 :: globals where
  "globals0 =
     \<lparr>NUMOBJECTS = 0, NUMLEAPSECS = 0,
      LEAPSMJD = [41317, 41499, 41683, 42048, 42413, 42778, 43144, 43509, 43874,
                  44239, 44786, 45151, 45516, 46247, 47161, 47892, 48257, 48804,
                  49169, 49534, 50083, 50630, 51179, 53736, 54832, 56109] @ replicate 74 0,
      LEAPSECS = [10, 11, 12, 13, 14, 15, 16, 17, 18, 19, 20, 21, 22, 23, 24, 25,
                  26, 27, 28, 29, 30, 31, 32, 33, 34, 35] @ replicate 74 0,
      WALLCLOCK0 = 0\<rparr>"

text \<open>
  What \<^verbatim>\<open>setleaps\<close> reads from outside the program: the wall clock, and the file
  \<^verbatim>\<open>tai-utc.dat\<close> under \<^verbatim>\<open>$TIMING_DIR\<close> and under \<^verbatim>\<open>$ASC_DATA\<close> (\<open>None\<close> when
  the variable is unset or the file cannot be opened). A file is the sequence of records
  \<^verbatim>\<open>(i, leapsMD, leapsecs)\<close> that the \<^verbatim>\<open>fscanf\<close> loop converts before its first
  failure, and the value of \<^verbatim>\<open>ferror\<close> afterwards.
\<close>

record leapfile =
  entries :: "(int \<times> int \<times> double) list"
  ferr :: bool

record env =
  wallclock :: int
  timing_dir :: "leapfile option"
  asc_data :: "leapfile option"

text \<open>The file that \<^verbatim>\<open>setleaps\<close> opens: the user's own if there is one, otherwise the standard one.\<close>

definition leapsource :: "env \<Rightarrow> leapfile option" where
  "leapsource ev = (case timing_dir ev of Some f \<Rightarrow> Some f | None \<Rightarrow> asc_data ev)"

text \<open>
  The body of the \<^verbatim>\<open>fscanf\<close> loop, over the records of the file; the state is
  \<^verbatim>\<open>(nums, LEAPSMJD, LEAPSECS)\<close>. A store at an index of 100 or more would leave the
  arrays; the list update of the model ignores it.
\<close>

fun readleaps ::
  "bool \<Rightarrow> int \<Rightarrow> (int \<times> int \<times> double) list \<Rightarrow> int \<times> int list \<times> double list
   \<Rightarrow> int \<times> int list \<times> double list" where
  "readleaps all n [] s = s"
| "readleaps all n ((i, leapsMD, leapsecs) # es) (nums, lm, ls) =
     readleaps all n es
       (if 1970 < i
        then (if all \<or> n \<le> nums
              then (nums + 1, lm[nat nums := leapsMD], ls[nat nums := leapsecs])
              else (nums, lm, ls))
        else (nums, lm, ls))"

definition setleaps :: "env \<Rightarrow> double \<Rightarrow> globals \<Rightarrow> globals" where
  "setleaps ev dt0 g0 =
     (let g = g0\<lparr>NUMOBJECTS := NUMOBJECTS g0 + 1\<rparr>;
          all = (dt0 < 0);
          dt = (if all then - dt0 else dt0);
          refresh = (if NUMLEAPSECS g \<noteq> 0
                     then dt < of_long (wallclock ev - WALLCLOCK0 g)
                     else True)
      in if refresh
         then (case leapsource ev of
                 Some f \<Rightarrow>
                   (case readleaps all (NUMLEAPSECS g) (entries f) (0, LEAPSMJD g, LEAPSECS g) of
                      (nums, lm, ls) \<Rightarrow>
                        if NUMLEAPSECS g \<le> nums \<and> \<not> ferr f
                        then g\<lparr>LEAPSMJD := lm, LEAPSECS := ls,
                               WALLCLOCK0 := wallclock ev, NUMLEAPSECS := nums\<rparr>
                        else g\<lparr>LEAPSMJD := lm, LEAPSECS := ls\<rparr>)
               | None \<Rightarrow> if NUMLEAPSECS g = 0 then g\<lparr>NUMLEAPSECS := 26\<rparr> else g)
         else g)"

text \<open>The public \<^verbatim>\<open>setLeaps\<close> undoes the object count of the private method.\<close>

definition setLeaps :: "env \<Rightarrow> double \<Rightarrow> globals \<Rightarrow> globals" where
  "setLeaps ev dt g = (let g1 = setleaps ev dt g in g1\<lparr>NUMOBJECTS := NUMOBJECTS g1 - 1\<rparr>)"

text \<open>
  The search loop \<^verbatim>\<open>while ( ( j < LEAPSMJD[i] ) && i ) i-- ;\<close> shared by
  \<^verbatim>\<open>setmyleaps\<close> and \<^verbatim>\<open>set\<close>. The index is a natural number: the source starts it at
  \<^verbatim>\<open>NUMLEAPSECS - 1\<close>, which is negative (and reads before the array) only when a leap
  second file without any record was loaded.
\<close>

fun leapidx :: "int list \<Rightarrow> int \<Rightarrow> nat \<Rightarrow> nat" where
  "leapidx L j i = (if j < L ! i \<and> i \<noteq> 0 then leapidx L j (i - 1) else i)"

declare leapidx.simps [simp del]

text \<open>
  \<^verbatim>\<open>setmyleaps\<close> returns the pair of \<^verbatim>\<open>*leapval\<close> and its result \<^verbatim>\<open>m\<close>. Its first
  line computes \<open>x\<close>, the TAI MJD of the TT time \<^verbatim>\<open>mjdi + mjdf\<close>.
\<close>

definition tai_mjd :: "int \<Rightarrow> double \<Rightarrow> double" where
  "tai_mjd mjdi mjdf = fsub (fadd (of_long mjdi) mjdf) (fmul TAI2TT SEC2DAY)"

definition setmyleaps :: "globals \<Rightarrow> int \<Rightarrow> double \<Rightarrow> double \<times> int" where
  "setmyleaps g mjdi mjdf =
     (let x = tai_mjd mjdi mjdf;
          j = to_long x;
          i = leapidx (LEAPSMJD g) j (nat (NUMLEAPSECS g - 1))
      in if fsub x (fmul (LEAPSECS g ! i) SEC2DAY) < of_long (LEAPSMJD g ! i) \<and> i \<noteq> 0
         then (LEAPSECS g ! (i - 1),
               if fsub (of_long (LEAPSMJD g ! i)) x \<le> SEC2DAY then 1 else 0)
         else (LEAPSECS g ! i, 0))"

subsection \<open>XTime::set from numbers\<close>

text \<open>
  The last part of \<^verbatim>\<open>set (long, double, ...)\<close>, from the comment
  \<^verbatim>\<open>Now we are ready to set the time\<close>: \<open>k\<close> and \<open>x\<close> are the MJD built so far and
  \<open>tot\<close> (the \<^verbatim>\<open>total\<close> of the source) the correction to TT in seconds.
\<close>

definition store_time :: "globals \<Rightarrow> XTime \<Rightarrow> TimeSys \<Rightarrow> int \<Rightarrow> double \<Rightarrow> double \<Rightarrow> XTime" where
  "store_time g t ts k x0 tot =
     (let x = fadd x0 (fmul tot SEC2DAY);
          j = to_long x;
          mi = k + j;
          mf = fsub x (of_long j);
          t1 = (if mf < 0 then t\<lparr>MJDint := mi - 1, MJDfr := fadd mf 1\<rparr>
                else t\<lparr>MJDint := mi, MJDfr := mf\<rparr>)
      in if ts \<noteq> UTC
         then (case setmyleaps g (MJDint t1) (fadd (MJDfr t1) (timeZero t1)) of
                 (lv, m) \<Rightarrow> t1\<lparr>myLeaps := lv, leapflag := m\<rparr>)
         else t1)"

text \<open>The \<^verbatim>\<open>MJD\<close> case (which \<^verbatim>\<open>JD\<close> falls into), with \<open>k = tti\<close> and \<open>x = ttf\<close>.\<close>

definition set_mjd :: "globals \<Rightarrow> XTime \<Rightarrow> TimeSys \<Rightarrow> int \<Rightarrow> double \<Rightarrow> XTime" where
  "set_mjd g t ts k x =
     (case ts of
        UTC \<Rightarrow>
          (let n1 = nat (NUMLEAPSECS g - 1);
               i0 = leapidx (LEAPSMJD g) k n1;
               back = (i0 < n1 \<and> k + 1 = LEAPSMJD g ! (i0 + 1)
                       \<and> fadd (fadd (of_long (LEAPSMJD g ! (i0 + 1) - k)) x) (timeZero t) < SEC2DAY
                       \<and> i0 \<noteq> 0);
               i = (if back then i0 - 1 else i0);
               t1 = (if back then t\<lparr>leapflag := 1\<rparr> else t)
           in store_time g (t1\<lparr>myLeaps := LEAPSECS g ! i\<rparr>) ts k x
                (fadd (fadd 0 (LEAPSECS g ! i)) TAI2TT))
      | TAI \<Rightarrow> store_time g t ts k x (fadd 0 TAI2TT)
      | _ \<Rightarrow> store_time g t ts k x 0)"

text \<open>The \<^verbatim>\<open>SECS\<close> case: seconds relative to the reference MJD of the object.\<close>

definition set_secs :: "globals \<Rightarrow> XTime \<Rightarrow> TimeSys \<Rightarrow> int \<Rightarrow> double \<Rightarrow> XTime" where
  "set_secs g t ts tti ttf =
     (let d = fmul (of_long tti) SEC2DAY;
          k0 = to_long d;
          x = fadd (fsub d (of_long k0)) (fadd (fmul ttf SEC2DAY) (MJDreffr t));
          k = k0 + MJDrefint t
      in case ts of
           UTC \<Rightarrow>
             (let q = fadd (fadd (of_long k) x) (timeZero t);
                  i0 = leapidx (LEAPSMJD g) (to_long q) (nat (NUMLEAPSECS g - 1));
                  back = (fsub q (of_long (LEAPSMJD g ! i0)) < SEC2DAY \<and> i0 \<noteq> 0);
                  i = (if back then i0 - 1 else i0);
                  t1 = (if back then t\<lparr>leapflag := 1\<rparr> else t)
              in store_time g (t1\<lparr>myLeaps := LEAPSECS g ! i\<rparr>) ts k x
                   (fadd (fsub 0 (refLeaps t)) (LEAPSECS g ! i)))
         | _ \<Rightarrow> store_time g t ts k x 0)"

text \<open>
  \<^verbatim>\<open>set (long, double, ...)\<close> after its reference step: the switch on the format. The
  formats that are not numbers leave the object as it is.
\<close>

definition set_time :: "globals \<Rightarrow> XTime \<Rightarrow> int \<Rightarrow> double \<Rightarrow> TimeSys \<Rightarrow> TimeFormat \<Rightarrow> XTime" where
  "set_time g t tti ttf ts tf =
     (case tf of
        JD \<Rightarrow> set_mjd g t ts (tti - to_long MJD0) (fsub ttf (1 / 2))
      | MJD \<Rightarrow> set_mjd g t ts tti ttf
      | SECS \<Rightarrow> set_secs g t ts tti ttf
      | _ \<Rightarrow> t)"

text \<open>
  The reference step of \<^verbatim>\<open>set (long, double, ...)\<close>, taken when \<^verbatim>\<open>mjdi > 1\<close>. For
  UTC it builds a temporary \<^verbatim>\<open>XTime mt (mjdi, mjdf, ts)\<close>: the constructor runs
  \<^verbatim>\<open>setleaps\<close> and \<^verbatim>\<open>set\<close> with \<^verbatim>\<open>mjdi = 0\<close> (so without a reference step of its
  own), \<^verbatim>\<open>mt.mjd\<close> reads its TT MJD, and its destructor decrements the object counter.
  The fields of \<^verbatim>\<open>mt\<close> that its initialiser list leaves unset are assigned by that
  \<^verbatim>\<open>set\<close> before they are read; the model starts them from the object at hand.
\<close>

definition set_ref :: "env \<Rightarrow> globals \<Rightarrow> XTime \<Rightarrow> TimeSys \<Rightarrow> int \<Rightarrow> double \<Rightarrow> globals \<times> XTime" where
  "set_ref ev g t ts mjdi mjdf =
     (case (case ts of
              UTC \<Rightarrow>
                (let g1 = setleaps ev 5000000 g;
                     mt = set_time g1
                            (t\<lparr>timeZero := 0, MJDrefint := MJDREFint, MJDreffr := MJDREFfr,
                               refLeaps := REFLEAPS, leapflag := 0\<rparr>)
                            mjdi mjdf ts MJD
                 in (g1\<lparr>NUMOBJECTS := NUMOBJECTS g1 - 1\<rparr>, mjd mt TT (mjdi, mjdf)))
            | TAI \<Rightarrow>
                (let f = fadd mjdf (fmul TAI2TT SEC2DAY)
                 in if f < 0 then (g, mjdi - 1, fadd f 1) else (g, mjdi, f))
            | _ \<Rightarrow> (g, mjdi, mjdf)) of
        (g2, ri, rf) \<Rightarrow>
          (g2, t\<lparr>MJDrefint := ri, MJDreffr := rf, refLeaps := fst (setmyleaps g2 ri rf)\<rparr>))"

definition set_long ::
  "env \<Rightarrow> globals \<Rightarrow> XTime \<Rightarrow> int \<Rightarrow> double \<Rightarrow> TimeSys \<Rightarrow> TimeFormat \<Rightarrow> int \<Rightarrow> double
   \<Rightarrow> globals \<times> XTime" where
  "set_long ev g t tti ttf ts tf mjdi mjdf =
     (case (if 1 < mjdi then set_ref ev g (t\<lparr>leapflag := 0\<rparr>) ts mjdi mjdf
            else (g, t\<lparr>leapflag := 0\<rparr>)) of
        (g1, t1) \<Rightarrow> (g1, set_time g1 t1 tti ttf ts tf))"

definition set_double ::
  "env \<Rightarrow> globals \<Rightarrow> XTime \<Rightarrow> double \<Rightarrow> TimeSys \<Rightarrow> TimeFormat \<Rightarrow> int \<Rightarrow> double
   \<Rightarrow> globals \<times> XTime" where
  "set_double ev g t tt ts tf mjdi mjdf =
     set_long ev g t (to_long tt) (fsub tt (of_long (to_long tt))) ts tf mjdi mjdf"

definition setTZero :: "globals \<Rightarrow> XTime \<Rightarrow> double \<Rightarrow> XTime" where
  "setTZero g t tz =
     (let t1 = t\<lparr>timeZero := fmul tz SEC2DAY\<rparr>
      in case setmyleaps g (MJDint t1) (fadd (MJDfr t1) (timeZero t1)) of
           (lv, m) \<Rightarrow> t1\<lparr>myLeaps := lv, leapflag := m\<rparr>)"

subsection \<open>Constructors\<close>

text \<open>
  A constructor assigns the members of its initialiser list and leaves the others as they
  were in the storage it is given: \<open>mem\<close> is that storage. Every constructor calls
  \<^verbatim>\<open>setleaps\<close> with its default argument.
\<close>

definition XTime_void :: "env \<Rightarrow> globals \<Rightarrow> XTime \<Rightarrow> globals \<times> XTime" where
  "XTime_void ev g mem =
     (setleaps ev 5000000 g,
      mem\<lparr>MJDint := MJDREFint, MJDfr := MJDREFfr, timeZero := 0,
          MJDrefint := MJDREFint, MJDreffr := MJDREFfr,
          refLeaps := REFLEAPS, myLeaps := REFLEAPS, leapflag := 0\<rparr>)"

definition XTime_met :: "env \<Rightarrow> globals \<Rightarrow> XTime \<Rightarrow> double \<Rightarrow> globals \<times> XTime" where
  "XTime_met ev g mem tt =
     (let g1 = setleaps ev 5000000 g;
          t = mem\<lparr>MJDint := MJDREFint, MJDfr := fadd MJDREFfr (fmul tt SEC2DAY), timeZero := 0,
                 MJDrefint := MJDREFint, MJDreffr := MJDREFfr,
                 refLeaps := REFLEAPS, leapflag := 0\<rparr>
      in case setmyleaps g1 (MJDint t) (MJDfr t) of
           (lv, m) \<Rightarrow> (g1, t\<lparr>myLeaps := lv, leapflag := m\<rparr>))"

definition XTime_double ::
  "env \<Rightarrow> globals \<Rightarrow> XTime \<Rightarrow> double \<Rightarrow> TimeSys \<Rightarrow> TimeFormat \<Rightarrow> int \<Rightarrow> double
   \<Rightarrow> globals \<times> XTime" where
  "XTime_double ev g mem tt ts tf mjdi mjdf =
     set_double ev (setleaps ev 5000000 g)
       (mem\<lparr>timeZero := 0, MJDrefint := MJDREFint, MJDreffr := MJDREFfr,
            refLeaps := REFLEAPS, leapflag := 0\<rparr>)
       tt ts tf mjdi mjdf"

definition XTime_long ::
  "env \<Rightarrow> globals \<Rightarrow> XTime \<Rightarrow> int \<Rightarrow> double \<Rightarrow> TimeSys \<Rightarrow> TimeFormat \<Rightarrow> int \<Rightarrow> double
   \<Rightarrow> globals \<times> XTime" where
  "XTime_long ev g mem tti ttf ts tf mjdi mjdf =
     set_long ev (setleaps ev 5000000 g)
       (mem\<lparr>timeZero := 0, MJDrefint := MJDREFint, MJDreffr := MJDREFfr,
            refLeaps := REFLEAPS, leapflag := 0\<rparr>)
       tti ttf ts tf mjdi mjdf"

subsection \<open>XTime::set from a date string\<close>

text \<open>
  The three \<^verbatim>\<open>sscanf\<close> calls of \<^verbatim>\<open>set (const char*, ...)\<close>. Each returns the number of
  fields it assigned and the fields, which keep their initial value 0 where the scan
  stopped before them. \<open>sscanf_hms\<close> is the common tail \<^verbatim>\<open>%ld:%ld:%lg\<close>. Seconds
  that are an infinity or a NaN are not a field of the model: it stops before them and
  counts one field less than the library (\<open>nonfinite_seconds\<close> below).
\<close>

definition sscanf_hms :: "string \<Rightarrow> int \<times> int \<times> int \<times> double" where
  "sscanf_hms s =
     (case scan_int s of
        None \<Rightarrow> (0, 0, 0, 0)
      | Some (hour, r1) \<Rightarrow>
     (case scan_lit (CHR '':'') r1 of
        None \<Rightarrow> (1, hour, 0, 0)
      | Some r2 \<Rightarrow>
     (case scan_int r2 of
        None \<Rightarrow> (1, hour, 0, 0)
      | Some (minute, r3) \<Rightarrow>
     (case scan_lit (CHR '':'') r3 of
        None \<Rightarrow> (2, hour, minute, 0)
      | Some r4 \<Rightarrow>
     (case scan_double r4 of
        Unmatched \<Rightarrow> (2, hour, minute, 0)
      | Number second \<Rightarrow> (3, hour, minute, second)
      | Nonfinite \<Rightarrow> (2, hour, minute, 0))))))"

text \<open>\<^verbatim>\<open>"%ld:%ld:%ld:%ld:%lg"\<close>: the count, year, day, hour, minute and second.\<close>

definition sscanf_DATE :: "string \<Rightarrow> int \<times> int \<times> int \<times> int \<times> int \<times> double" where
  "sscanf_DATE s =
     (case scan_int s of
        None \<Rightarrow> (0, 0, 0, 0, 0, 0)
      | Some (year, r1) \<Rightarrow>
     (case scan_lit (CHR '':'') r1 of
        None \<Rightarrow> (1, year, 0, 0, 0, 0)
      | Some r2 \<Rightarrow>
     (case scan_int r2 of
        None \<Rightarrow> (1, year, 0, 0, 0, 0)
      | Some (day, r3) \<Rightarrow>
     (case scan_lit (CHR '':'') r3 of
        None \<Rightarrow> (2, year, day, 0, 0, 0)
      | Some r4 \<Rightarrow>
     (case sscanf_hms r4 of
        (n, hour, minute, second) \<Rightarrow> (2 + n, year, day, hour, minute, second))))))"

text \<open>\<^verbatim>\<open>"%ld%c%c%c%ld at %ld:%ld:%lg"\<close>: the count, year, month name, day, hour, minute and second.\<close>

definition sscanf_CALDATE :: "string \<Rightarrow> int \<times> int \<times> string \<times> int \<times> int \<times> int \<times> double" where
  "sscanf_CALDATE s =
     (case scan_int s of
        None \<Rightarrow> (0, 0, [], 0, 0, 0, 0)
      | Some (year, r1) \<Rightarrow>
     (case scan_char r1 of
        None \<Rightarrow> (1, year, [], 0, 0, 0, 0)
      | Some (c1, r2) \<Rightarrow>
     (case scan_char r2 of
        None \<Rightarrow> (2, year, [c1], 0, 0, 0, 0)
      | Some (c2, r3) \<Rightarrow>
     (case scan_char r3 of
        None \<Rightarrow> (3, year, [c1, c2], 0, 0, 0, 0)
      | Some (c3, r4) \<Rightarrow>
     (case scan_int r4 of
        None \<Rightarrow> (4, year, [c1, c2, c3], 0, 0, 0, 0)
      | Some (day, r5) \<Rightarrow>
     (case scan_lit (CHR ''a'') (dropWhile isspace r5) of
        None \<Rightarrow> (5, year, [c1, c2, c3], day, 0, 0, 0)
      | Some r6 \<Rightarrow>
     (case scan_lit (CHR ''t'') r6 of
        None \<Rightarrow> (5, year, [c1, c2, c3], day, 0, 0, 0)
      | Some r7 \<Rightarrow>
     (case sscanf_hms (dropWhile isspace r7) of
        (n, hour, minute, second) \<Rightarrow>
          (5 + n, year, [c1, c2, c3], day, hour, minute, second)))))))))"

text \<open>\<^verbatim>\<open>"%ld-%d-%ldT%ld:%ld:%lg"\<close>: the count, year, month, day, hour, minute and second.\<close>

definition sscanf_FITS :: "string \<Rightarrow> int \<times> int \<times> int \<times> int \<times> int \<times> int \<times> double" where
  "sscanf_FITS s =
     (case scan_int s of
        None \<Rightarrow> (0, 0, 0, 0, 0, 0, 0)
      | Some (year, r1) \<Rightarrow>
     (case scan_lit (CHR ''-'') r1 of
        None \<Rightarrow> (1, year, 0, 0, 0, 0, 0)
      | Some r2 \<Rightarrow>
     (case scan_int r2 of
        None \<Rightarrow> (1, year, 0, 0, 0, 0, 0)
      | Some (m, r3) \<Rightarrow>
     (case scan_lit (CHR ''-'') r3 of
        None \<Rightarrow> (2, year, m, 0, 0, 0, 0)
      | Some r4 \<Rightarrow>
     (case scan_int r4 of
        None \<Rightarrow> (2, year, m, 0, 0, 0, 0)
      | Some (day, r5) \<Rightarrow>
     (case scan_lit (CHR ''T'') r5 of
        None \<Rightarrow> (3, year, m, day, 0, 0, 0)
      | Some r6 \<Rightarrow>
     (case sscanf_hms r6 of
        (n, hour, minute, second) \<Rightarrow> (3 + n, year, m, day, hour, minute, second))))))))"

text \<open>
  The date strings whose seconds read as an infinity or a NaN: the scan comes as far as
  the conversion \<^verbatim>\<open>%lg\<close>, for which \<open>seconds_input\<close> returns the input left, and the
  outcome of the conversion is \<open>Nonfinite\<close>. For such a string \<^verbatim>\<open>sscanf\<close> counts the
  seconds among the fields it assigned, and \<^verbatim>\<open>set\<close> goes on to the undefined conversion of
  a double that is no number; the counts above are without that field.
\<close>

definition hms_seconds :: "string \<Rightarrow> string option" where
  "hms_seconds s =
     (case scan_int s of
        None \<Rightarrow> None
      | Some (hour, r1) \<Rightarrow>
     (case scan_lit (CHR '':'') r1 of
        None \<Rightarrow> None
      | Some r2 \<Rightarrow>
     (case scan_int r2 of
        None \<Rightarrow> None
      | Some (minute, r3) \<Rightarrow> scan_lit (CHR '':'') r3)))"

definition seconds_input :: "TimeFormat \<Rightarrow> string \<Rightarrow> string option" where
  "seconds_input tf s =
     (case tf of
        DATE \<Rightarrow>
          (case scan_int s of
             None \<Rightarrow> None
           | Some (year, r1) \<Rightarrow>
          (case scan_lit (CHR '':'') r1 of
             None \<Rightarrow> None
           | Some r2 \<Rightarrow>
          (case scan_int r2 of
             None \<Rightarrow> None
           | Some (day, r3) \<Rightarrow>
          (case scan_lit (CHR '':'') r3 of
             None \<Rightarrow> None
           | Some r4 \<Rightarrow> hms_seconds r4))))
      | CALDATE \<Rightarrow>
          (case scan_int s of
             None \<Rightarrow> None
           | Some (year, r1) \<Rightarrow>
          (case scan_char r1 of
             None \<Rightarrow> None
           | Some (c1, r2) \<Rightarrow>
          (case scan_char r2 of
             None \<Rightarrow> None
           | Some (c2, r3) \<Rightarrow>
          (case scan_char r3 of
             None \<Rightarrow> None
           | Some (c3, r4) \<Rightarrow>
          (case scan_int r4 of
             None \<Rightarrow> None
           | Some (day, r5) \<Rightarrow>
          (case scan_lit (CHR ''a'') (dropWhile isspace r5) of
             None \<Rightarrow> None
           | Some r6 \<Rightarrow>
          (case scan_lit (CHR ''t'') r6 of
             None \<Rightarrow> None
           | Some r7 \<Rightarrow> hms_seconds (dropWhile isspace r7))))))))
      | FITS \<Rightarrow>
          (case scan_int s of
             None \<Rightarrow> None
           | Some (year, r1) \<Rightarrow>
          (case scan_lit (CHR ''-'') r1 of
             None \<Rightarrow> None
           | Some r2 \<Rightarrow>
          (case scan_int r2 of
             None \<Rightarrow> None
           | Some (m, r3) \<Rightarrow>
          (case scan_lit (CHR ''-'') r3 of
             None \<Rightarrow> None
           | Some r4 \<Rightarrow>
          (case scan_int r4 of
             None \<Rightarrow> None
           | Some (day, r5) \<Rightarrow>
          (case scan_lit (CHR ''T'') r5 of
             None \<Rightarrow> None
           | Some r6 \<Rightarrow> hms_seconds r6))))))
      | SECS \<Rightarrow> None
      | JD \<Rightarrow> None
      | MJD \<Rightarrow> None)"

definition nonfinite_seconds :: "TimeFormat \<Rightarrow> string \<Rightarrow> bool" where
  "nonfinite_seconds tf s =
     (case seconds_input tf s of None \<Rightarrow> False | Some r \<Rightarrow> scan_double r = Nonfinite)"

text \<open>
  The static table \<^verbatim>\<open>daymonth\<close>, whose February entry is rewritten from \<^verbatim>\<open>year%4\<close>
  before every use, and the month names.
\<close>

definition daymonth :: "int \<Rightarrow> int list" where
  "daymonth year =
     [31, if crem year 4 \<noteq> 0 then 28 else 29, 31, 30, 31, 30, 31, 31, 30, 31, 30, 31]"

definition month :: "string list" where
  "month = [''Jan'', ''Feb'', ''Mar'', ''Apr'', ''May'', ''Jun'',
            ''Jul'', ''Aug'', ''Sep'', ''Oct'', ''Nov'', ''Dec'']"

text \<open>
  The loop \<^verbatim>\<open>while ( strcmp(mn, month[m]) ) { if ( m > 11 ) return ; day += daymonth[m++] ; }\<close>:
  the days of the months before the one named, or \<open>None\<close> where the source returns
  (after comparing with the thirteenth entry of a table of twelve).
\<close>

fun month_days :: "string \<Rightarrow> string list \<Rightarrow> int list \<Rightarrow> int option" where
  "month_days mn [] ds = None"
| "month_days mn (nm # nms) ds =
     (if mn = nm then Some 0
      else (case ds of
              [] \<Rightarrow> None
            | d # ds' \<Rightarrow> (case month_days mn nms ds' of None \<Rightarrow> None | Some n \<Rightarrow> Some (d + n))))"

text \<open>
  The switch on the format: year, day of the year, hour, minute and second of the string,
  or \<open>None\<close> where the source returns without a word. For a FITS month beyond 12 the
  source adds what lies behind the table; the model adds the twelve months.
\<close>

definition date_fields :: "TimeFormat \<Rightarrow> string \<Rightarrow> (int \<times> int \<times> int \<times> int \<times> double) option" where
  "date_fields tf date =
     (case tf of
        DATE \<Rightarrow>
          (case sscanf_DATE date of
             (n, year, day, hour, minute, second) \<Rightarrow>
               if n \<noteq> 5 then None else Some (year, day, hour, minute, second))
      | CALDATE \<Rightarrow>
          (case sscanf_CALDATE date of
             (n, year, mn, day, hour, minute, second) \<Rightarrow>
               if n \<noteq> 8 then None
               else (case month_days [toupper (mn ! 0), tolower (mn ! 1), tolower (mn ! 2)]
                            month (daymonth year) of
                       None \<Rightarrow> None
                     | Some d \<Rightarrow> Some (year, day + d, hour, minute, second)))
      | FITS \<Rightarrow>
          (case sscanf_FITS date of
             (n, year, m, day, hour, minute, second) \<Rightarrow>
               if n \<noteq> 6 \<and> n \<noteq> 3 then None
               else Some (year, day + sum_list (take (nat (m - 1)) (daymonth year)),
                          hour, minute, second))
      | _ \<Rightarrow> None)"

text \<open>
  The MJD of day \<open>day\<close> of year \<open>year\<close>, as the three \<^verbatim>\<open>day +=\<close> lines after the switch
  compute it, and the fraction of the day.
\<close>

definition date_mjd :: "int \<Rightarrow> int \<Rightarrow> int" where
  "date_mjd year day = day + ((year - 1972) * 365 - 1) + cdiv (year - 1969) 4 + MJD1972"

definition day_fraction :: "int \<Rightarrow> int \<Rightarrow> double \<Rightarrow> double" where
  "day_fraction hour minute second =
     fmul (fadd second (fadd (fmul (of_long hour) 3600) (of_long (minute * 60)))) SEC2DAY"

definition set_str ::
  "env \<Rightarrow> globals \<Rightarrow> XTime \<Rightarrow> string \<Rightarrow> TimeSys \<Rightarrow> TimeFormat \<Rightarrow> int \<Rightarrow> double
   \<Rightarrow> globals \<times> XTime" where
  "set_str ev g t date ts tf mjdi mjdf =
     (case date_fields tf date of
        None \<Rightarrow> (g, t)
      | Some (year, day, hour, minute, second) \<Rightarrow>
          set_long ev g t (date_mjd year day) (day_fraction hour minute second) ts MJD mjdi mjdf)"

definition XTime_str ::
  "env \<Rightarrow> globals \<Rightarrow> XTime \<Rightarrow> string \<Rightarrow> TimeSys \<Rightarrow> TimeFormat \<Rightarrow> int \<Rightarrow> double
   \<Rightarrow> globals \<times> XTime" where
  "XTime_str ev g mem date ts tf mjdi mjdf =
     set_str ev (setleaps ev 5000000 g)
       (mem\<lparr>timeZero := 0, leapflag := 0, MJDrefint := MJDREFint, MJDreffr := MJDREFfr,
            refLeaps := 31\<rparr>)
       date ts tf mjdi mjdf"

subsection \<open>XTime::getDate and XTime::monDay\<close>

text \<open>
  The month loop of \<^verbatim>\<open>monDay\<close>,
  \<^verbatim>\<open>while ( day > daymonth[m] ) { day -= daymonth[m] ; m++ ; }\<close>, over the rest of the
  table. \<^verbatim>\<open>getDate\<close> hands it a day that the twelve months hold.
\<close>

fun mon_loop :: "int \<Rightarrow> int list \<Rightarrow> nat \<Rightarrow> int \<times> nat" where
  "mon_loop day [] m = (day, m)"
| "mon_loop day (d # ds) m = (if d < day then mon_loop (day - d) ds (m + 1) else (day, m))"

text \<open>
  \<^verbatim>\<open>monDay\<close> reads year and day back from the date string \<open>d\<close> (a scan that fails leaves
  them unset in the source, 0 here; the strings of \<^verbatim>\<open>getDate\<close> do not fail) and writes
  \<^verbatim>\<open>tdate\<close>: the new date part, cut at the offset of the \<^verbatim>\<open>strcpy\<close>, and the time
  part of \<open>d\<close> from its offset 9.
\<close>

definition monDay :: "XTime \<Rightarrow> string \<Rightarrow> TimeFormat \<Rightarrow> XTime" where
  "monDay t d tf =
     (let year = (case scan_int d of None \<Rightarrow> 0 | Some (y, r) \<Rightarrow> y);
          day0 = (case scan_int d of
                    None \<Rightarrow> 0
                  | Some (y, r) \<Rightarrow>
                      (case scan_lit (CHR '':'') r of
                         None \<Rightarrow> 0
                       | Some r1 \<Rightarrow> (case scan_int r1 of None \<Rightarrow> 0 | Some (dd, r2) \<Rightarrow> dd)))
      in case mon_loop day0 (daymonth year) 0 of
           (day, m) \<Rightarrow>
             if tf = CALDATE
             then t\<lparr>tdate := take 13 (fmt_0d 4 year @ (if m < 12 then month ! m else [])
                                      @ fmt_0d 2 day @ '' at '')
                              @ drop 9 d\<rparr>
             else if tf = FITS
             then t\<lparr>tdate := take 11 (fmt_0d 4 year @ ''-'' @ fmt_0d 2 (int m + 1) @ ''-''
                                      @ fmt_0d 2 day @ ''T'')
                              @ drop 9 d\<rparr>
             else t)"

text \<open>
  The two normalising loops of \<^verbatim>\<open>getDate\<close>, \<^verbatim>\<open>while ( x < 0.0 ) { x++ ; k-- ; }\<close> and
  \<^verbatim>\<open>while ( x >= 1.0 ) { x-- ; k++ ; }\<close>. Beyond \<open>2 ^ 53\<close> adding or subtracting 1 does
  not change a double, so the loops need not end: \<open>None\<close> is a loop that runs forever.
\<close>

partial_function (option) norm_lo :: "int \<Rightarrow> double \<Rightarrow> (int \<times> double) option" where
  "norm_lo k x = (if x < 0 then norm_lo (k - 1) (fadd x 1) else Some (k, x))"

partial_function (option) norm_hi :: "int \<Rightarrow> double \<Rightarrow> (int \<times> double) option" where
  "norm_hi k x = (if 1 \<le> x then norm_hi (k + 1) (fsub x 1) else Some (k, x))"

text \<open>Hour, minute and second of the seconds of the day, outside and inside a leap second.\<close>

definition hms_plain :: "double \<Rightarrow> int \<times> int \<times> double" where
  "hms_plain second =
     (let hour = cdiv (to_long second) 3600;
          s1 = fsub second (fmul (of_long hour) 3600);
          minute = cdiv (to_long s1) 60
      in (hour, minute, fsub s1 (fmul (of_long minute) 60)))"

definition hms_leap :: "double \<Rightarrow> int \<times> int \<times> double" where
  "hms_leap second =
     (let s0 = fadd second 1;
          hour0 = cdiv (to_long s0) 3600;
          hour = (if 23 < hour0 then hour0 - 1 else hour0);
          s1 = fsub s0 (fmul (of_long hour) 3600);
          minute0 = cdiv (to_long s1) 60;
          minute = (if 59 < minute0 then minute0 - 1 else minute0)
      in (hour, minute, fsub s1 (fmul (of_long minute) 60)))"

text \<open>
  The year loop: from day \<open>day\<close> counted from the first day of 1972, with \<open>i\<close> the
  position in the cycle of four years. It returns the day of the year and the year.
\<close>

function year_loop :: "int \<Rightarrow> int \<Rightarrow> int \<Rightarrow> int \<times> int" where
  "year_loop day year i =
     (if 365 < day
      then (if i = 0
            then (if day = 366 then (day, year)
                  else year_loop (day - 1 - 365) (year + 1) (crem (i + 1) 4))
            else year_loop (day - 365) (year + 1) (crem (i + 1) 4))
      else (day, year))"
  by pat_completeness auto
termination
  by (relation "measure (\<lambda>(day, year, i). nat day)") auto

declare year_loop.simps [simp del]

text \<open>
  \<^verbatim>\<open>getDate\<close> returns the object with the string in \<^verbatim>\<open>tdate\<close>, to which the pointer it
  returns points. \<open>kx\<close> is what its locals \<^verbatim>\<open>k\<close> and \<^verbatim>\<open>x\<close> hold before \<^verbatim>\<open>mjd\<close> is
  called. The format of the seconds is \<^verbatim>\<open>%02.0f\<close>, or \<^verbatim>\<open>%0<dec+3>.<dec>f\<close> when
  \<^verbatim>\<open>dec\<close> is not 0 (for a negative \<^verbatim>\<open>dec\<close> the source builds a malformed format; the
  model prints no decimals then).
\<close>

definition date_string :: "int \<Rightarrow> int \<Rightarrow> int \<Rightarrow> int \<Rightarrow> double \<Rightarrow> int \<Rightarrow> string" where
  "date_string year day hour minute second dec =
     fmt_wd 4 year @ '':'' @ fmt_0d 3 day @ '':'' @ fmt_0d 2 hour @ '':'' @ fmt_0d 2 minute @ '':''
     @ (if dec \<noteq> 0 then fmt_f (nat (dec + 3)) (nat dec) second else fmt_f 2 0 second)"

definition getDate_at :: "XTime \<Rightarrow> TimeSys \<Rightarrow> TimeFormat \<Rightarrow> int \<Rightarrow> int \<Rightarrow> double \<Rightarrow> XTime" where
  "getDate_at t ts tf dec k x =
     (let dsec = fmul (1 / 2) (pow10d dec);
          second0 = fadd (fmul x DAY2SEC) dsec
      in case (if ts = UTC \<and> leapflag t \<noteq> 0 then hms_leap second0 else hms_plain second0) of
           (hour0, minute, second1) \<Rightarrow>
             (case year_loop ((if 23 < hour0 then k - MJD1972 + 1 else k - MJD1972) + 1) 1972 0 of
                (day, year) \<Rightarrow>
                  (let str = date_string year day (if 23 < hour0 then hour0 - 24 else hour0) minute
                               (if fsub second1 dsec < 0 then 0 else fsub second1 dsec) dec
                   in if tf = CALDATE \<or> tf = FITS then monDay (t\<lparr>tdate := str\<rparr>) str tf
                      else t\<lparr>tdate := str\<rparr>)))"

definition getDate :: "XTime \<Rightarrow> TimeSys \<Rightarrow> TimeFormat \<Rightarrow> int \<Rightarrow> int \<times> double \<Rightarrow> XTime option" where
  "getDate t ts tf dec kx =
     (case mjd t ts kx of
        (k0, x0) \<Rightarrow>
          (case norm_lo k0 (if ts = UTC \<and> leapflag t \<noteq> 0 then fsub x0 SEC2DAY else x0) of
             None \<Rightarrow> None
           | Some (k1, x1) \<Rightarrow>
               (case norm_hi k1 x1 of
                  None \<Rightarrow> None
                | Some (k, x) \<Rightarrow> Some (getDate_at t ts tf dec k x))))"

section \<open>The front end axTime3\<close>

text \<open>
  \<^verbatim>\<open>readsys\<close> and \<^verbatim>\<open>readform\<close> return their result (0 for a valid code, -1 for quit,
  1 for an unrecognized code) and the values of their output parameters. Where the source
  leaves a parameter alone, the value it had before comes back: \<open>tSys0\<close>, \<open>tForm0\<close>
  and \<open>dec0\<close>.
\<close>

definition readsys :: "string \<Rightarrow> TimeSys \<Rightarrow> int \<times> TimeSys" where
  "readsys tsys tSys0 =
     (let c = cidx tsys 0
      in if c = CHR ''m'' \<or> c = CHR ''M'' then (0, MET)
         else if c = CHR ''t'' \<or> c = CHR ''T''
         then (if cidx tsys 1 = CHR ''a'' \<or> cidx tsys 1 = CHR ''A'' then (0, TAI) else (0, TT))
         else if c = CHR ''a'' \<or> c = CHR ''A'' then (0, TAI)
         else if c = CHR ''u'' \<or> c = CHR ''U'' then (0, UTC)
         else if c = CHR ''q'' \<or> c = CHR ''Q'' \<or> c = CHR ''x'' \<or> c = CHR ''X'' then (- 1, tSys0)
         else (1, tSys0))"

definition readform_code :: "char \<Rightarrow> TimeFormat \<Rightarrow> int \<times> TimeFormat \<times> int \<times> int" where
  "readform_code c tForm0 =
     (if c = CHR ''s'' \<or> c = CHR ''S'' then (0, SECS, 0, 0)
      else if c = CHR ''j'' \<or> c = CHR ''J'' then (0, JD, 0, 0)
      else if c = CHR ''m'' \<or> c = CHR ''M'' then (0, MJD, 0, 0)
      else if c = CHR ''d'' \<or> c = CHR ''D'' then (0, DATE, 0, 0)
      else if c = CHR ''c'' \<or> c = CHR ''C'' then (0, CALDATE, 0, 0)
      else if c = CHR ''f'' \<or> c = CHR ''F'' then (0, FITS, 0, 0)
      else if c = CHR ''h'' \<or> c = CHR ''H'' then (0, SECS, 1, 0)
      else if c = CHR ''n'' \<or> c = CHR ''N'' then (0, SECS, 0, 1)
      else if c = CHR ''q'' \<or> c = CHR ''Q'' \<or> c = CHR ''x'' \<or> c = CHR ''X'' then (- 1, tForm0, 0, 0)
      else (1, tForm0, 0, 0))"

definition readform :: "string \<Rightarrow> TimeFormat \<Rightarrow> int \<Rightarrow> int \<times> TimeFormat \<times> int \<times> int \<times> int" where
  "readform tform tForm0 dec0 =
     (case readform_code (cidx tform 0) tForm0 of
        (quit, tForm, hex, nmday) \<Rightarrow>
          (quit, tForm, hex, nmday,
           if tForm = DATE \<or> tForm = CALDATE \<or> tForm = FITS
           then (if 47 < (of_char (cidx tform 1) :: nat) \<and> (of_char (cidx tform 1) :: nat) < 58
                 then (case scan_int (drop 1 tform) of None \<Rightarrow> dec0 | Some (v, r) \<Rightarrow> v)
                 else 0)
           else dec0))"

text \<open>
  What the locals of the front end hold before they are first assigned: the storage of
  the new \<^verbatim>\<open>XTime\<close>, \<^verbatim>\<open>t\<close> of \<^verbatim>\<open>getinput\<close>, \<^verbatim>\<open>k\<close> and \<^verbatim>\<open>x\<close> of \<^verbatim>\<open>getDate\<close>, and
  \<^verbatim>\<open>tSys\<close> and \<^verbatim>\<open>tForm\<close> of \<^verbatim>\<open>axTime3\<close>.
\<close>

record indet =
  new_obj :: XTime
  in_t :: double
  date_kx :: "int \<times> double"
  out_tSys :: TimeSys
  out_tForm :: TimeFormat

text \<open>
  The tests of \<^verbatim>\<open>getinput\<close> on the time argument that both of its branches make: a
  FITS string by its two hyphens, or a string with a colon, which is a date unless its
  first number lies between 367 and 1899. The result is \<^verbatim>\<open>(tForm, ch, nmday)\<close>, or
  \<open>None\<close> when neither test holds.
\<close>

definition detect :: "string \<Rightarrow> (TimeFormat \<times> int \<times> int) option" where
  "detect a =
     (if cidx a 4 = CHR ''-'' \<and> cidx a 7 = CHR ''-'' then Some (FITS, 1, 0)
      else if CHR '':'' \<in> set a
      then (if (case scan_int a of None \<Rightarrow> 0 | Some (day, r) \<Rightarrow> day) < 1900
               \<and> 366 < (case scan_int a of None \<Rightarrow> 0 | Some (day, r) \<Rightarrow> day)
            then Some (SECS, 0, 1)
            else Some (DATE, 1, 0))
      else None)"

text \<open>
  \<^verbatim>\<open>sscanf (argv[1], "%d:%d:%d:%lg", &day, &h, &m, &t)\<close> followed by
  \<^verbatim>\<open>t += 86400 * day + 3600 * h + 60 * m\<close>; \<open>day0\<close> and \<open>t0\<close> are what \<^verbatim>\<open>day\<close> and
  \<^verbatim>\<open>t\<close> held before. Seconds that are an infinity or a NaN are left out as above.
\<close>

definition numday :: "string \<Rightarrow> int \<Rightarrow> double \<Rightarrow> double" where
  "numday a day0 t0 =
     (case (case scan_int a of
              None \<Rightarrow> (day0, 0, 0, t0)
            | Some (day, r1) \<Rightarrow>
           (case scan_lit (CHR '':'') r1 of
              None \<Rightarrow> (day, 0, 0, t0)
            | Some r2 \<Rightarrow>
           (case scan_int r2 of
              None \<Rightarrow> (day, 0, 0, t0)
            | Some (h, r3) \<Rightarrow>
           (case scan_lit (CHR '':'') r3 of
              None \<Rightarrow> (day, h, 0, t0)
            | Some r4 \<Rightarrow>
           (case scan_int r4 of
              None \<Rightarrow> (day, h, 0, t0)
            | Some (m, r5) \<Rightarrow>
           (case scan_lit (CHR '':'') r5 of
              None \<Rightarrow> (day, h, m, t0)
            | Some r6 \<Rightarrow>
           (case scan_double r6 of
              Unmatched \<Rightarrow> (day, h, m, t0)
            | Number t \<Rightarrow> (day, h, m, t)
            | Nonfinite \<Rightarrow> (day, h, m, t0)))))))) of
        (day, h, m, t) \<Rightarrow> fadd t (of_long (86400 * day + 3600 * h + 60 * m)))"

text \<open>
  The first half of \<^verbatim>\<open>getinput\<close>, which reads the arguments: it returns \<^verbatim>\<open>error\<close>,
  \<^verbatim>\<open>ch\<close>, \<^verbatim>\<open>str\<close>, \<^verbatim>\<open>tSys\<close>, \<^verbatim>\<open>tForm\<close>, \<^verbatim>\<open>hexfmt\<close>, \<^verbatim>\<open>nmday\<close>, \<^verbatim>\<open>getform\<close>,
  \<^verbatim>\<open>mjdi\<close> and \<^verbatim>\<open>mjdf\<close>. \<^verbatim>\<open>argc\<close> is the length of \<open>argv\<close>.
\<close>

definition getinput_args ::
  "string list \<Rightarrow> int \<times> int \<times> string \<times> TimeSys \<times> TimeFormat \<times> int \<times> int \<times> int \<times> int \<times> double" where
  "getinput_args argv =
     (if length argv < 2 then (1, 0, [], MET, SECS, 0, 0, 0, 0, 0)
      else if length argv = 2
      then (case detect (argv ! 1) of
              None \<Rightarrow> (0, 0, [], MET, SECS, 0, 0, 1, 0, 0)
            | Some (tForm, ch, nmday) \<Rightarrow> (0, ch, argv ! 1, MET, tForm, 0, nmday, 0, 0, 0))
      else
        (case (if 4 \<le> length argv \<and> (argv ! 2 = ''at'' \<or> argv ! 2 = ''AT'')
               then (4, CALDATE, 1, 0, argv ! 1 @ '' '' @ argv ! 2 @ '' '' @ argv ! 3)
               else (case detect (argv ! 1) of
                       None \<Rightarrow> (2, SECS, 0, 0, [])
                     | Some (tForm, ch, nmday) \<Rightarrow> (2, tForm, ch, nmday, argv ! 1))) of
           (istrt, tForm0, ch, nmday0, str) \<Rightarrow>
             (case (if istrt < length argv then readsys (argv ! istrt) MET else (0, MET)) of
                (error1, tSys) \<Rightarrow>
                  (case (if error1 = 0
                         then (if istrt + 1 < length argv
                               then (case readform (argv ! (istrt + 1)) tForm0 0 of
                                       (quit, tForm, hexfmt, nmday, dec) \<Rightarrow>
                                         (quit, tForm, hexfmt, nmday, 0))
                               else (0, tForm0, 0, nmday0, if ch = 0 then 1 else 0))
                         else (error1, tForm0, 0, nmday0, 0)) of
                     (error, tForm, hexfmt, nmday, getform) \<Rightarrow>
                       (error, ch, str, tSys, tForm, hexfmt, nmday, getform,
                        if istrt + 4 < length argv then atoi (argv ! (istrt + 2)) else 0,
                        if istrt + 5 < length argv then atof (argv ! (istrt + 3)) else 0)))))"

text \<open>
  \<^verbatim>\<open>getinput\<close>: the new object, or \<open>None\<close> for the null pointer. A number is read in
  hexadecimal, as days and time, or by \<^verbatim>\<open>atof\<close>; when the format has to be deduced it
  follows from the size of the number.
\<close>

definition getinput :: "env \<Rightarrow> globals \<Rightarrow> indet \<Rightarrow> string list \<Rightarrow> globals \<times> XTime option" where
  "getinput ev g u argv =
     (case getinput_args argv of
        (error, ch, str, tSys, tForm, hexfmt, nmday, getform, mjdi, mjdf) \<Rightarrow>
          if error \<noteq> 0 then (g, None)
          else if ch = 0
          then (let t = (if hexfmt \<noteq> 0
                         then of_long (case scan_hex (argv ! 1) of None \<Rightarrow> 0 | Some (jt, r) \<Rightarrow> jt)
                         else if nmday \<noteq> 0
                         then numday (argv ! 1)
                                (case scan_int (argv ! 1) of
                                   None \<Rightarrow> 0
                                 | Some (day, r) \<Rightarrow> if CHR '':'' \<in> set (argv ! 1) then day else 0)
                                (in_t u)
                         else atof (argv ! 1))
                in case XTime_double ev g (new_obj u) t tSys
                          (if getform \<noteq> 0
                           then (if t < 100000 then MJD else if t < 2500000 then JD else SECS)
                           else tForm)
                          mjdi mjdf of
                     (g1, T) \<Rightarrow> (g1, Some T))
          else (case XTime_str ev g (new_obj u) str tSys tForm mjdi mjdf of
                  (g1, T) \<Rightarrow> (g1, Some T)))"

text \<open>
  The output of a number: \<^verbatim>\<open>"0x%7x"\<close> of the seconds as an \<^verbatim>\<open>unsigned int\<close>,
  \<^verbatim>\<open>"%d:%d:%d:%.10f"\<close> of days, hours, minutes and seconds, or \<^verbatim>\<open>"%.9f"\<close>.
\<close>

definition number_string :: "int \<Rightarrow> int \<Rightarrow> double \<Rightarrow> string" where
  "number_string hexfmt nmday t =
     (if hexfmt \<noteq> 0 then ''0x'' @ fmt_wx 7 (to_long t mod 2 ^ 32)
      else if nmday \<noteq> 0
      then (let day = cdiv (to_long t) 86400;
                t1 = fsub t (of_long (day * 86400));
                h = cdiv (to_long t1) 3600;
                t2 = fsub t1 (of_long (h * 3600));
                m = cdiv (to_long t2) 60;
                t3 = fsub t2 (of_long (m * 60))
            in fmt_d day @ '':'' @ fmt_d h @ '':'' @ fmt_d m @ '':'' @ fmt_f 0 10 t3)
      else fmt_f 0 9 t)"

text \<open>
  \<^verbatim>\<open>axTime3\<close> returns the static members and the string it leaves in \<^verbatim>\<open>time_out\<close>;
  \<open>None\<close> is a call that does not return. \<^verbatim>\<open>argv\<close> holds the program name and the five
  arguments. When both \<^verbatim>\<open>readsys\<close> and \<^verbatim>\<open>readform\<close> fail the second message
  overwrites the first. \<^verbatim>\<open>delete(T)\<close> runs the destructor, which decrements the object
  counter.
\<close>

definition axTime3 ::
  "env \<Rightarrow> globals \<Rightarrow> indet \<Rightarrow> string \<Rightarrow> string \<Rightarrow> string \<Rightarrow> string \<Rightarrow> string
   \<Rightarrow> (globals \<times> string) option" where
  "axTime3 ev g u time_in ts_in tf_in ts_out tf_out =
     (case getinput ev g u [''convert_time'', time_in, ts_in, tf_in, ts_out, tf_out] of
        (g1, None) \<Rightarrow> Some (g1, ''Error: Incorrect time format; try again'')
      | (g1, Some T) \<Rightarrow>
          (case readsys ts_out (out_tSys u) of
             (e2, tSys) \<Rightarrow>
               (case readform tf_out (out_tForm u) 0 of
                  (e3, tForm, hexfmt, nmday, dec) \<Rightarrow>
                    if e3 \<noteq> 0
                    then Some (g1\<lparr>NUMOBJECTS := NUMOBJECTS g1 - 1\<rparr>, ''Error: Failed readform'')
                    else if e2 \<noteq> 0
                    then Some (g1\<lparr>NUMOBJECTS := NUMOBJECTS g1 - 1\<rparr>, ''Error: Failed readsys'')
                    else if tForm = SECS \<or> tForm = JD \<or> tForm = MJD
                    then Some (g1\<lparr>NUMOBJECTS := NUMOBJECTS g1 - 1\<rparr>,
                               number_string hexfmt nmday (get T tSys tForm))
                    else (case getDate T tSys tForm dec (date_kx u) of
                            None \<Rightarrow> None
                          | Some T1 \<Rightarrow>
                              Some (g1\<lparr>NUMOBJECTS := NUMOBJECTS g1 - 1\<rparr>, tdate T1)))))"

section \<open>XTimeRange\<close>

record XTimeRange =
  start :: XTime
  stop :: XTime
  empty_flag :: int

definition METStart :: "XTimeRange \<Rightarrow> double" where
  "METStart r = getMET (start r)"

definition METStop :: "XTimeRange \<Rightarrow> double" where
  "METStop r = getMET (stop r)"

definition setEmpty :: "XTimeRange \<Rightarrow> XTimeRange" where
  "setEmpty r =
     (let t1 = getMET (start r); t2 = getMET (stop r)
      in if t2 \<le> t1 \<or> t1 \<le> 0 \<or> t2 \<le> 0 then r\<lparr>empty_flag := 1\<rparr>
         else r\<lparr>empty_flag := 0\<rparr>)"

definition isInRange :: "XTimeRange \<Rightarrow> double \<Rightarrow> int" where
  "isInRange r t =
     (if t < getMET (start r) then - 1
      else if getMET (stop r) < t then 1
      else if empty_flag r \<noteq> 0 then 1
      else 0)"

definition isInRangeT :: "XTimeRange \<Rightarrow> XTime \<Rightarrow> int" where
  "isInRangeT r T = isInRange r (getMET T)"

definition totalTime :: "XTimeRange \<Rightarrow> double" where
  "totalTime r = (if empty_flag r \<noteq> 0 then 0 else fsub (getMET (stop r)) (getMET (start r)))"

definition isEmpty :: "XTimeRange \<Rightarrow> int" where
  "isEmpty r = empty_flag r"

text \<open>The constructors: the empty one, and the one from two MET seconds values.\<close>

definition XTimeRange_void :: "env \<Rightarrow> globals \<Rightarrow> XTime \<Rightarrow> XTime \<Rightarrow> globals \<times> XTimeRange" where
  "XTimeRange_void ev g mem1 mem2 =
     (case XTime_met ev g mem1 0 of
        (g1, T1) \<Rightarrow>
          (case XTime_met ev g1 mem2 0 of
             (g2, T2) \<Rightarrow> (g2, \<lparr>start = T1, stop = T2, empty_flag = 1\<rparr>)))"

definition XTimeRange_met ::
  "env \<Rightarrow> globals \<Rightarrow> XTime \<Rightarrow> XTime \<Rightarrow> double \<Rightarrow> double \<Rightarrow> globals \<times> XTimeRange" where
  "XTimeRange_met ev g mem1 mem2 t1 t2 =
     (case XTime_met ev g mem1 t1 of
        (g1, T1) \<Rightarrow>
          (case XTime_met ev g1 mem2 t2 of
             (g2, T2) \<Rightarrow> (g2, setEmpty \<lparr>start = T1, stop = T2, empty_flag = 0\<rparr>)))"

section \<open>The leap second table as the specification describes it\<close>

text \<open>
  The table proper: the first \<^verbatim>\<open>NUMLEAPSECS\<close> pairs of MJD and leap seconds; and the
  number of records of a file that the loop of \<^verbatim>\<open>setleaps\<close> keeps (those after 1970).
\<close>

definition leaptable :: "globals \<Rightarrow> (int \<times> double) list" where
  "leaptable g = take (nat (NUMLEAPSECS g)) (zip (LEAPSMJD g) (LEAPSECS g))"

definition yielded :: "leapfile \<Rightarrow> nat" where
  "yielded f = length (filter (\<lambda>e. 1970 < fst e) (entries f))"

text \<open>
  The lookup in the words of the specification, for a query instant \<open>q\<close> in days: the
  count of the last entry whose epoch is at most \<open>q\<close> (the first entry's count when
  there is none), and whether \<open>q\<close> lies within the final second before the epoch of
  an entry.
\<close>

definition spec_leapcount :: "globals \<Rightarrow> real \<Rightarrow> double" where
  "spec_leapcount g q =
     (case filter (\<lambda>e. of_int (fst e) \<le> q) (leaptable g) of
        [] \<Rightarrow> snd (hd (leaptable g))
      | e # es \<Rightarrow> snd (last (e # es)))"

definition spec_inleap :: "globals \<Rightarrow> real \<Rightarrow> bool" where
  "spec_inleap g q =
     list_ex (\<lambda>e. of_int (fst e) - 1 / 86400 \<le> q \<and> q < of_int (fst e)) (leaptable g)"

section \<open>Concrete inputs\<close>

text \<open>
  A process that finds no leap second file, at some wall clock time, zeroed storage
  for a new object, and zeroed locals of the front end. \<open>globals26\<close> is the table after the first \<^verbatim>\<open>setleaps\<close> of such a
  process: the 26 built-in entries.
\<close>

definition env0 :: env where
  "env0 = \<lparr>wallclock = 1000000000, timing_dir = None, asc_data = None\<rparr>"

definition mem0 :: XTime where
  "mem0 = \<lparr>MJDint = 0, MJDfr = 0, timeZero = 0, tdate = [], MJDrefint = 0, MJDreffr = 0,
            leapflag = 0, myLeaps = 0, refLeaps = 0\<rparr>"

definition globals26 :: globals where
  "globals26 = setleaps env0 5000000 globals0"

definition indet0 :: indet where
  "indet0 = \<lparr>new_obj = mem0, in_t = 0, date_kx = (0, 0), out_tSys = MET, out_tForm = SECS\<rparr>"

text \<open>A leap second file of a single record, which disagrees with the built-in table.\<close>

definition file1 :: leapfile where
  "file1 = \<lparr>entries = [(1972, 41317, 11)], ferr = False\<rparr>"

definition env1 :: env where
  "env1 = \<lparr>wallclock = 1000000000, timing_dir = Some file1, asc_data = None\<rparr>"

section \<open>Evaluation rules\<close>

lemma bitlen_numeral [simp]:
  "bitlen 0 = 0"
  "bitlen 1 = 1"
  "bitlen (numeral (Num.Bit0 k)) = 1 + bitlen (numeral k)"
  "bitlen (numeral (Num.Bit1 k)) = 1 + bitlen (numeral k)"
  "bitlen (- numeral k) = 0"
  by (subst bitlen.simps, simp)+

lemmas fp_defs =
  fadd_def fsub_def fmul_def fdiv_def rnd_def ilog2_def round_even_def pow2_def
  of_long_def to_long_def

lemma SEC2DAY_val: "SEC2DAY = 6832127434707241 / 2 ^ 69"
  by (simp add: SEC2DAY_def DAY2SEC_def fp_defs)

lemma TAI2TT_val: "TAI2TT = 1132373831306969 / 2 ^ 45"
  by (simp add: TAI2TT_def fp_defs)

lemma TAI2TT_days_val: "fmul TAI2TT SEC2DAY = 6871412167456807 / 2 ^ 64"
  by (simp add: TAI2TT_val SEC2DAY_val fp_defs)

section \<open>Accuracy of rounding\<close>

lemma round_even_error: "\<bar>of_int (round_even y) - y\<bar> \<le> 1 / 2"
  unfolding round_even_def by (auto simp: abs_le_iff)

lemma pow2_pos: "0 < pow2 e"
  by (simp add: pow2_def)

lemma rnd_error: "\<bar>rnd x - x\<bar> \<le> pow2 (max (ilog2 x - 52) (- 1074)) / 2"
proof (cases "x = 0")
  case True
  then show ?thesis using pow2_pos[of "max (ilog2 x - 52) (- 1074)"] by (simp add: rnd_def)
next
  case False
  define p where "p = pow2 (max (ilog2 x - 52) (- 1074))"
  have p: "0 < p" by (simp add: p_def pow2_pos)
  have "\<bar>of_int (round_even (x / p)) - x / p\<bar> \<le> 1 / 2" by (rule round_even_error)
  then have "\<bar>of_int (round_even (x / p)) - x / p\<bar> * p \<le> 1 / 2 * p"
    using p by (simp add: mult_right_mono)
  moreover have "\<bar>of_int (round_even (x / p)) - x / p\<bar> * p = \<bar>(of_int (round_even (x / p)) - x / p) * p\<bar>"
    using p by (simp add: abs_mult)
  moreover have "(of_int (round_even (x / p)) - x / p) * p = of_int (round_even (x / p)) * p - x"
    using p by (simp add: left_diff_distrib)
  ultimately show ?thesis using False by (simp add: rnd_def p_def)
qed

lemma bitlen_nonneg: "0 \<le> bitlen k"
proof (induction k rule: bitlen.induct)
  case (1 k)
  then show ?case by (subst bitlen.simps) auto
qed

lemma bitlen_upper: "k < 2 ^ nat (bitlen k)"
proof (induction k rule: bitlen.induct)
  case (1 k)
  show ?case
  proof (cases "k \<le> 0")
    case True
    then have "k < 1" by simp
    also have "(1::int) \<le> 2 ^ nat (bitlen k)" by simp
    finally show ?thesis .
  next
    case False
    then have ih: "k div 2 < 2 ^ nat (bitlen (k div 2))" using 1 by simp
    have eq: "nat (bitlen k) = Suc (nat (bitlen (k div 2)))"
      using False bitlen_nonneg[of "k div 2"] by (subst bitlen.simps) (simp add: nat_add_distrib)
    from ih have "k < 2 * 2 ^ nat (bitlen (k div 2))" by linarith
    then show ?thesis by (simp add: eq)
  qed
qed

lemma bitlen_lower: "1 \<le> k \<Longrightarrow> 2 ^ nat (bitlen k - 1) \<le> k"
proof (induction k rule: bitlen.induct)
  case (1 k)
  show ?case
  proof (cases "k = 1")
    case True
    then show ?thesis by simp
  next
    case False
    with 1(2) have k2: "1 \<le> k div 2" by linarith
    then have ih: "2 ^ nat (bitlen (k div 2) - 1) \<le> k div 2" using 1 by simp
    have pos: "1 \<le> bitlen (k div 2)" using k2 bitlen_nonneg[of "k div 2 div 2"] by (subst bitlen.simps) simp
    have eq: "nat (bitlen k - 1) = Suc (nat (bitlen (k div 2) - 1))"
      using 1(2) pos by (subst bitlen.simps) simp
    from ih have "2 * 2 ^ nat (bitlen (k div 2) - 1) \<le> k" by linarith
    then show ?thesis by (simp add: eq)
  qed
qed

lemma pow2_ilog2_le: "x \<noteq> 0 \<Longrightarrow> pow2 (ilog2 x) \<le> \<bar>x\<bar>"
proof (cases "1 \<le> \<bar>x\<bar>")
  case True
  then have f1: "1 \<le> \<lfloor>\<bar>x\<bar>\<rfloor>" by linarith
  have nn: "0 \<le> bitlen \<lfloor>\<bar>x\<bar>\<rfloor> - 1"
    using f1 bitlen_nonneg[of "\<lfloor>\<bar>x\<bar>\<rfloor> div 2"] by (subst bitlen.simps) simp
  have "(2::int) ^ nat (bitlen \<lfloor>\<bar>x\<bar>\<rfloor> - 1) \<le> \<lfloor>\<bar>x\<bar>\<rfloor>" using f1 by (rule bitlen_lower)
  then have "real_of_int (2 ^ nat (bitlen \<lfloor>\<bar>x\<bar>\<rfloor> - 1)) \<le> real_of_int \<lfloor>\<bar>x\<bar>\<rfloor>" by linarith
  also have "\<dots> \<le> \<bar>x\<bar>" by linarith
  finally show ?thesis using True nn by (simp add: ilog2_def pow2_def)
next
  case False
  assume nz: "x \<noteq> 0"
  define n where "n = \<lceil>1 / \<bar>x\<bar>\<rceil>"
  have xpos: "0 < \<bar>x\<bar>" using nz by simp
  have "1 / \<bar>x\<bar> \<le> of_int n" unfolding n_def by linarith
  moreover have "n - 1 < 2 ^ nat (bitlen (n - 1))" by (rule bitlen_upper)
  then have "n \<le> 2 ^ nat (bitlen (n - 1))" by linarith
  then have "real_of_int n \<le> 2 ^ nat (bitlen (n - 1))" 
    by (metis of_int_le_iff of_int_numeral of_int_power)
  ultimately have "1 / \<bar>x\<bar> \<le> 2 ^ nat (bitlen (n - 1))" by linarith
  then have "1 / 2 ^ nat (bitlen (n - 1)) \<le> \<bar>x\<bar>" using xpos
    by (simp add: field_simps)
  moreover have "pow2 (ilog2 x) = 1 / 2 ^ nat (bitlen (n - 1))"
    using False bitlen_nonneg[of "n - 1"] by (auto simp: ilog2_def pow2_def n_def)
  ultimately show ?thesis by simp
qed

lemma pow2_powi: "pow2 e = 2 powi e"
  by (simp add: pow2_def power_int_def field_simps)

lemma rnd_rel_error: "\<bar>rnd x - x\<bar> \<le> max (\<bar>x\<bar> / 2 ^ 53) (1 / 2 ^ 1075)"
proof (cases "x = 0")
  case True
  then show ?thesis by (simp add: rnd_def)
next
  case False
  have e: "\<bar>rnd x - x\<bar> \<le> pow2 (max (ilog2 x - 52) (- 1074)) / 2" by (rule rnd_error)
  show ?thesis
  proof (cases "ilog2 x - 52 \<le> - 1074")
    case True
    then have "pow2 (max (ilog2 x - 52) (- 1074)) / 2 = 1 / 2 ^ 1075"
      by (simp add: max_def pow2_def)
    with e show ?thesis by (simp add: max_def)
  next
    case False
    then have "pow2 (max (ilog2 x - 52) (- 1074)) / 2 = pow2 (ilog2 x) / 2 ^ 53"
      by (simp add: max_def pow2_powi power_int_diff)
    also have "\<dots> \<le> \<bar>x\<bar> / 2 ^ 53"
      using pow2_ilog2_le[OF \<open>x \<noteq> 0\<close>] by (simp add: divide_right_mono)
    finally show ?thesis using e by (simp add: max_def)
  qed
qed

section \<open>Values of the concrete inputs\<close>

lemma globals26_val: "globals26 = globals0\<lparr>NUMOBJECTS := 1, NUMLEAPSECS := 26\<rparr>"
  by (simp add: globals26_def setleaps_def leapsource_def env0_def globals0_def)

lemma setleaps_env0_26: "setleaps env0 5000000 (globals26\<lparr>NUMOBJECTS := n\<rparr>) = globals26\<lparr>NUMOBJECTS := n + 1\<rparr>"
  by (simp add: globals26_val setleaps_def leapsource_def env0_def globals0_def fp_defs)

lemma XTime_void_val:
  "snd (XTime_void env0 globals0 mem0) =
     \<lparr>MJDint = 50814, MJDfr = 0, timeZero = 0, tdate = [], MJDrefint = 50814, MJDreffr = 0,
      leapflag = 0, myLeaps = 31, refLeaps = 31\<rparr>"
  by (simp add: XTime_void_def mem0_def MJDREFint_def MJDREFfr_def REFLEAPS_def)

lemma XTime_long_10000_val:
  "snd (XTime_long env0 globals0 mem0 10000 0 TT MJD 0 0) =
     \<lparr>MJDint = 10000, MJDfr = 0, timeZero = 0, tdate = [], MJDrefint = 50814, MJDreffr = 0,
      leapflag = 0, myLeaps = 10, refLeaps = 31\<rparr>"
  apply (simp add: XTime_long_def globals26_def[symmetric] set_long_def set_time_def set_mjd_def)
  apply (simp add: store_time_def Let_def)
  apply (simp add: fp_defs SEC2DAY_val TAI2TT_val setmyleaps_def tai_mjd_def globals26_val globals0_def mem0_def MJDREFint_def MJDREFfr_def REFLEAPS_def leapidx.simps)
  done

lemma XTime_met_0_val:
  "XTime_met env0 (globals26\<lparr>NUMOBJECTS := n\<rparr>) mem0 0 =
     (globals26\<lparr>NUMOBJECTS := n + 1\<rparr>,
      \<lparr>MJDint = 50814, MJDfr = 0, timeZero = 0, tdate = [], MJDrefint = 50814, MJDreffr = 0,
       leapflag = 0, myLeaps = 31, refLeaps = 31\<rparr>)"
  apply (simp add: XTime_met_def setleaps_env0_26 Let_def)
  apply (simp add: fp_defs SEC2DAY_val TAI2TT_val setmyleaps_def tai_mjd_def globals26_val globals0_def mem0_def MJDREFint_def MJDREFfr_def REFLEAPS_def leapidx.simps)
  done

lemma XTimeRange_void_val:
  "snd (XTimeRange_void env0 (globals26\<lparr>NUMOBJECTS := 1\<rparr>) mem0 mem0) =
     \<lparr>start = \<lparr>MJDint = 50814, MJDfr = 0, timeZero = 0, tdate = [], MJDrefint = 50814,
               MJDreffr = 0, leapflag = 0, myLeaps = 31, refLeaps = 31\<rparr>,
      stop = \<lparr>MJDint = 50814, MJDfr = 0, timeZero = 0, tdate = [], MJDrefint = 50814,
              MJDreffr = 0, leapflag = 0, myLeaps = 31, refLeaps = 31\<rparr>,
      empty_flag = 1\<rparr>"
  by (simp add: XTimeRange_void_def XTime_met_0_val)

subsection \<open>The refresh loop\<close>

lemma readleaps_keep:
  "nums < n \<Longrightarrow> readleaps False n es (nums, lm, ls) = (nums, lm, ls)"
  by (induction es) auto

lemma readleaps_count:
  "fst (readleaps all n es (nums, lm, ls))
     \<le> nums + int (length (filter (\<lambda>e. 1970 < fst e) es))"
proof (induction es arbitrary: nums lm ls)
  case Nil
  show ?case by simp
next
  case (Cons e es)
  obtain i a b where e: "e = (i, a, b)" by (cases e)
  show ?case
  proof (cases "1970 < i \<and> (all \<or> n \<le> nums)")
    case True
    have "fst (readleaps all n es (nums + 1, lm[nat nums := a], ls[nat nums := b]))
            \<le> nums + 1 + int (length (filter (\<lambda>e. 1970 < fst e) es))"
      by (rule Cons.IH)
    with True show ?thesis by (simp add: e)
  next
    case False
    have "fst (readleaps all n es (nums, lm, ls))
            \<le> nums + int (length (filter (\<lambda>e. 1970 < fst e) es))"
      by (rule Cons.IH)
    with False show ?thesis by (auto simp: e)
  qed
qed

subsection \<open>The search loop\<close>

lemma leapidx_le: "leapidx L j n \<le> n"
proof (induction L j n rule: leapidx.induct)
  case (1 L j i)
  show ?case
  proof (cases "j < L ! i \<and> i \<noteq> 0")
    case True
    with 1 have "leapidx L j (i - 1) \<le> i - 1" by simp
    with True show ?thesis by (subst leapidx.simps) simp
  next
    case False
    then show ?thesis by (subst leapidx.simps) auto
  qed
qed

lemma leapidx_above: "leapidx L j n < k \<Longrightarrow> k \<le> n \<Longrightarrow> j < L ! k"
proof (induction L j n rule: leapidx.induct)
  case (1 L j i)
  show ?case
  proof (cases "j < L ! i \<and> i \<noteq> 0")
    case True
    then have eq: "leapidx L j i = leapidx L j (i - 1)" by (subst leapidx.simps) simp
    show ?thesis
    proof (cases "k = i")
      case True
      with \<open>j < L ! i \<and> i \<noteq> 0\<close> show ?thesis by simp
    next
      case False
      with 1(3) have "k \<le> i - 1" by simp
      moreover from 1(2) eq have "leapidx L j (i - 1) < k" by simp
      ultimately show ?thesis using 1(1) True by simp
    qed
  next
    case False
    then have "leapidx L j i = i" by (subst leapidx.simps) auto
    with 1(2,3) show ?thesis by simp
  qed
qed

lemma leapidx_at: "leapidx L j n \<noteq> 0 \<Longrightarrow> L ! leapidx L j n \<le> j"
proof (induction L j n rule: leapidx.induct)
  case (1 L j i)
  show ?case
  proof (cases "j < L ! i \<and> i \<noteq> 0")
    case True
    then have eq: "leapidx L j i = leapidx L j (i - 1)" by (subst leapidx.simps) simp
    with 1 True show ?thesis by simp
  next
    case False
    then have eq: "leapidx L j i = i" by (subst leapidx.simps) auto
    with 1(2) False show ?thesis by auto
  qed
qed

lemma leapidx_first: "(\<And>k. k \<le> n \<Longrightarrow> j < L ! k) \<Longrightarrow> leapidx L j n = 0"
proof (induction L j n rule: leapidx.induct)
  case (1 L j i)
  show ?case
  proof (cases "i = 0")
    case True
    then show ?thesis by (subst leapidx.simps) simp
  next
    case False
    with 1(2) have c: "j < L ! i \<and> i \<noteq> 0" by simp
    then have "leapidx L j i = leapidx L j (i - 1)" by (subst leapidx.simps) simp
    moreover have "leapidx L j (i - 1) = 0" using 1(1) [OF c] 1(2) by simp
    ultimately show ?thesis by simp
  qed
qed

lemma sorted_take_first:
  assumes "sorted (take n L)" and "n \<le> length L" and "k < n"
  shows "L ! 0 \<le> L ! k"
proof -
  have "take n L ! 0 \<le> take n L ! k"
    using assms by (intro sorted_nth_mono) auto
  with assms show ?thesis by simp
qed

lemma leapidx_eval:
  "j < L ! i \<Longrightarrow> i \<noteq> 0 \<Longrightarrow> leapidx L j i = leapidx L j (i - 1)"
  "\<not> j < L ! i \<Longrightarrow> leapidx L j i = i"
  "leapidx L j 0 = 0"
  by (subst leapidx.simps, simp)+

lemma tai_mjd_51179: "tai_mjd 51179 (rnd (5 / 10000)) = 7033988217266955 / 2 ^ 37"
  unfolding tai_mjd_def TAI2TT_days_val by (simp add: fp_defs)

lemma tai_mjd_40000: "tai_mjd 40000 0 = 2748779043841995 / 2 ^ 36"
  unfolding tai_mjd_def TAI2TT_days_val by (simp add: fp_defs)

lemma leaptable26:
  "leaptable globals26 =
     [(41317, 10), (41499, 11), (41683, 12), (42048, 13), (42413, 14), (42778, 15), (43144, 16),
      (43509, 17), (43874, 18), (44239, 19), (44786, 20), (45151, 21), (45516, 22), (46247, 23),
      (47161, 24), (47892, 25), (48257, 26), (48804, 27), (49169, 28), (49534, 29), (50083, 30),
      (50630, 31), (51179, 32), (53736, 33), (54832, 34), (56109, 35)]"
  by (simp add: leaptable_def globals26_val globals0_def)

lemma setmyleaps_51179: "setmyleaps globals26 51179 (rnd (5 / 10000)) = (31, 1)"
  unfolding setmyleaps_def tai_mjd_51179 globals26_val globals0_def
  by (simp add: leapidx_eval fp_defs SEC2DAY_val)

lemma setmyleaps_40000: "setmyleaps globals26 40000 0 = (10, 0)"
  unfolding setmyleaps_def tai_mjd_40000 globals26_val globals0_def
  by (simp add: leapidx_eval fp_defs SEC2DAY_val)

text \<open>
  The count that the lookup returns. It turns the TT query into its TAI MJD \<open>x\<close> and
  finds the last entry \<open>i\<close> of the table whose MJD is at most the whole days of \<open>x\<close>
  (entry 0 when there is none). It returns the count of that entry, unless \<open>i\<close> is not
  the first entry and \<open>x\<close> less that count of seconds falls before the entry's MJD: then
  it returns the count of the entry before. For a query whose TAI day is before the first
  entry of an increasing table it returns the first entry's count, and no leap second.
\<close>

lemma setmyleaps_lookup:
  "(\<exists>i \<le> nat (NUMLEAPSECS g - 1).
      (\<forall>k. i < k \<and> k \<le> nat (NUMLEAPSECS g - 1) \<longrightarrow> to_long (tai_mjd mjdi mjdf) < LEAPSMJD g ! k) \<and>
      (i \<noteq> 0 \<longrightarrow> LEAPSMJD g ! i \<le> to_long (tai_mjd mjdi mjdf)) \<and>
      fst (setmyleaps g mjdi mjdf) =
        (if i \<noteq> 0 \<and> fsub (tai_mjd mjdi mjdf) (fmul (LEAPSECS g ! i) SEC2DAY) < of_long (LEAPSMJD g ! i)
         then LEAPSECS g ! (i - 1) else LEAPSECS g ! i)) \<and>
   (1 \<le> NUMLEAPSECS g \<and> nat (NUMLEAPSECS g) \<le> length (LEAPSMJD g) \<and>
    sorted (take (nat (NUMLEAPSECS g)) (LEAPSMJD g)) \<and>
    to_long (tai_mjd mjdi mjdf) < LEAPSMJD g ! 0 \<longrightarrow>
      setmyleaps g mjdi mjdf = (LEAPSECS g ! 0, 0))"
proof (intro conjI impI)
  define j where "j = to_long (tai_mjd mjdi mjdf)"
  define n where "n = nat (NUMLEAPSECS g - 1)"
  define i where "i = leapidx (LEAPSMJD g) j n"
  have "i \<le> n" unfolding i_def by (rule leapidx_le)
  moreover have "\<forall>k. i < k \<and> k \<le> n \<longrightarrow> j < LEAPSMJD g ! k"
    unfolding i_def using leapidx_above by blast
  moreover have "i \<noteq> 0 \<longrightarrow> LEAPSMJD g ! i \<le> j"
    unfolding i_def using leapidx_at by blast
  moreover have "fst (setmyleaps g mjdi mjdf) =
      (if i \<noteq> 0 \<and> fsub (tai_mjd mjdi mjdf) (fmul (LEAPSECS g ! i) SEC2DAY) < of_long (LEAPSMJD g ! i)
       then LEAPSECS g ! (i - 1) else LEAPSECS g ! i)"
    by (simp add: setmyleaps_def Let_def i_def j_def n_def)
  ultimately show "\<exists>i \<le> nat (NUMLEAPSECS g - 1).
      (\<forall>k. i < k \<and> k \<le> nat (NUMLEAPSECS g - 1) \<longrightarrow> to_long (tai_mjd mjdi mjdf) < LEAPSMJD g ! k) \<and>
      (i \<noteq> 0 \<longrightarrow> LEAPSMJD g ! i \<le> to_long (tai_mjd mjdi mjdf)) \<and>
      fst (setmyleaps g mjdi mjdf) =
        (if i \<noteq> 0 \<and> fsub (tai_mjd mjdi mjdf) (fmul (LEAPSECS g ! i) SEC2DAY) < of_long (LEAPSMJD g ! i)
         then LEAPSECS g ! (i - 1) else LEAPSECS g ! i)"
    unfolding j_def n_def by blast
next
  assume a: "1 \<le> NUMLEAPSECS g \<and> nat (NUMLEAPSECS g) \<le> length (LEAPSMJD g) \<and>
    sorted (take (nat (NUMLEAPSECS g)) (LEAPSMJD g)) \<and>
    to_long (tai_mjd mjdi mjdf) < LEAPSMJD g ! 0"
  have "to_long (tai_mjd mjdi mjdf) < LEAPSMJD g ! k" if "k \<le> nat (NUMLEAPSECS g - 1)" for k
  proof -
    from that a have "k < nat (NUMLEAPSECS g)" by linarith
    with a have "LEAPSMJD g ! 0 \<le> LEAPSMJD g ! k" by (intro sorted_take_first) auto
    with a show ?thesis by linarith
  qed
  then have "leapidx (LEAPSMJD g) (to_long (tai_mjd mjdi mjdf)) (nat (NUMLEAPSECS g - 1)) = 0"
    by (rule leapidx_first)
  then show "setmyleaps g mjdi mjdf = (LEAPSECS g ! 0, 0)"
    by (simp add: setmyleaps_def Let_def)
qed

subsection \<open>The scenario of seconds to a UTC date\<close>

lemmas scan_defs = scan_int_def scan_sign_def scan_double_def strtod_def scan_decimal_def
  mantissa_def scan_exp_def scan_lit_def scan_char_def isspace_def isdigit_def digits_val_def
  digit_val_def pow10_def atof_def atoi_def toupper_def

lemma atof_C1: "atof ''49161360.0'' = 49161360"
  apply (simp add: scan_defs)
  apply (simp add: to_double_def fp_defs)
  done

lemma args_C1:
  "getinput_args [''convert_time'', ''49161360.0'', ''tt'', ''s'', ''utc'', ''d'']
     = (0, 0, [], TT, SECS, 0, 0, 0, 0, 0)"
  by (simp add: getinput_args_def detect_def cidx_def readsys_def readform_def readform_code_def)

lemma out_C1: "readsys ''utc'' s0 = (0, UTC)" "readform ''d'' f0 0 = (0, DATE, 0, 0, 0)"
  "readform ''d3'' f0 0 = (0, DATE, 0, 0, 3)"
  by (simp_all add: cidx_def readsys_def readform_def readform_code_def scan_defs)

lemma setmyleaps_C1: "setmyleaps globals26 51382 (8771659430479 / 2 ^ 43) = (32, 0)"
  unfolding setmyleaps_def tai_mjd_def TAI2TT_days_val globals26_val globals0_def
  by (simp add: leapidx_eval fp_defs SEC2DAY_val)

lemma XTime_C1:
  "XTime_double env0 globals0 m 49161360 TT SECS 0 0 =
     (globals26,
      m\<lparr>timeZero := 0, MJDrefint := 50814, MJDreffr := 0, refLeaps := 31, leapflag := 0,
        MJDint := 51382, MJDfr := 8771659430479 / 2 ^ 43, myLeaps := 32\<rparr>)"
  apply (simp add: XTime_double_def globals26_def[symmetric] set_double_def set_long_def set_time_def set_secs_def)
  apply (simp add: fp_defs SEC2DAY_val MJDREFint_def MJDREFfr_def REFLEAPS_def Let_def)
  apply (simp add: store_time_def Let_def)
  apply (simp add: fp_defs SEC2DAY_val)
  apply (simp add: setmyleaps_C1[simplified])
  done

lemma norm_lo_eval:
  "x < 0 \<Longrightarrow> norm_lo k x = norm_lo (k - 1) (fadd x 1)"
  "\<not> x < 0 \<Longrightarrow> norm_lo k x = Some (k, x)"
  by (subst norm_lo.simps, simp)+

lemma norm_hi_eval:
  "1 \<le> x \<Longrightarrow> norm_hi k x = norm_hi (k + 1) (fsub x 1)"
  "\<not> 1 \<le> x \<Longrightarrow> norm_hi k x = Some (k, x)"
  by (subst norm_hi.simps, simp)+

lemma year_loop_eval:
  "\<not> 365 < day \<Longrightarrow> year_loop day year i = (day, year)"
  "365 < day \<Longrightarrow> i \<noteq> 0 \<Longrightarrow> year_loop day year i = year_loop (day - 365) (year + 1) (crem (i + 1) 4)"
  "365 < day \<Longrightarrow> i = 0 \<Longrightarrow> day \<noteq> 366 \<Longrightarrow>
     year_loop day year i = year_loop (day - 1 - 365) (year + 1) (crem (i + 1) 4)"
  "year_loop 366 year 0 = (366, year)"
  by (subst year_loop.simps, simp)+

lemma show_nat_eval:
  "n < 10 \<Longrightarrow> show_nat n = [digit_char n]"
  "\<not> n < 10 \<Longrightarrow> show_nat n = show_nat (n div 10) @ [digit_char (n mod 10)]"
  by (subst show_nat.simps, simp)+

lemmas fmt_defs = fmt_d_def fmt_wd_def fmt_0d_def fmt_f_def fmt_digits_def pad_left_def
  digit_char_def show_nat_eval round_even_def

lemma UTmjd2_C1:
  assumes "MJDint T = 51382" "MJDfr T = 8771659430479 / 2 ^ 43" "timeZero T = 0" "myLeaps T = 32"
  shows "UTmjd2 T = (51382, 8975488075364127 / 2 ^ 53)"
  unfolding UTmjd2_def Let_def assms TAI2TT_val SEC2DAY_val
  by (simp add: fp_defs)

lemma getDate_at_C1:
  assumes "leapflag T = 0"
  shows "getDate_at T UTC DATE 0 51382 (8975488075364127 / 2 ^ 53) = T\<lparr>tdate := ''1999:204:23:54:56''\<rparr>"
  unfolding getDate_at_def hms_plain_def Let_def assms
  by (simp add: DAY2SEC_def pow10d_def pow10_def fp_defs cdiv_def MJD1972_def year_loop_eval
        crem_def date_string_def fmt_defs)

lemma getDate_C1:
  assumes "MJDint T = 51382" "MJDfr T = 8771659430479 / 2 ^ 43" "timeZero T = 0" "myLeaps T = 32"
    "leapflag T = 0"
  shows "getDate T UTC DATE 0 kx = Some (T\<lparr>tdate := ''1999:204:23:54:56''\<rparr>)"
proof -
  have n: "norm_lo 51382 (8975488075364127 / 2 ^ 53) = Some (51382, 8975488075364127 / 2 ^ 53)"
    by (simp add: norm_lo_eval)
  have h: "norm_hi 51382 (8975488075364127 / 2 ^ 53) = Some (51382, 8975488075364127 / 2 ^ 53)"
    by (simp add: norm_hi_eval)
  show ?thesis
    unfolding getDate_def mjd_def
    by (simp add: UTmjd2_C1[OF assms(1-4)] assms(5) n[simplified] h[simplified] getDate_at_C1[OF assms(5), simplified])
qed

lemma getDate_at_C1_3:
  assumes "leapflag T = 0"
  shows "getDate_at T UTC DATE 3 51382 (8975488075364127 / 2 ^ 53) = T\<lparr>tdate := ''1999:204:23:54:55.816''\<rparr>"
  unfolding getDate_at_def hms_plain_def Let_def assms
  by (simp add: DAY2SEC_def pow10d_def pow10_def fp_defs cdiv_def MJD1972_def year_loop_eval
        crem_def date_string_def fmt_defs)

lemma getDate_C1_3:
  assumes "MJDint T = 51382" "MJDfr T = 8771659430479 / 2 ^ 43" "timeZero T = 0" "myLeaps T = 32"
    "leapflag T = 0"
  shows "getDate T UTC DATE 3 kx = Some (T\<lparr>tdate := ''1999:204:23:54:55.816''\<rparr>)"
proof -
  have n: "norm_lo 51382 (8975488075364127 / 2 ^ 53) = Some (51382, 8975488075364127 / 2 ^ 53)"
    by (simp add: norm_lo_eval)
  have h: "norm_hi 51382 (8975488075364127 / 2 ^ 53) = Some (51382, 8975488075364127 / 2 ^ 53)"
    by (simp add: norm_hi_eval)
  show ?thesis
    unfolding getDate_def mjd_def
    by (simp add: UTmjd2_C1[OF assms(1-4)] assms(5) n[simplified] h[simplified]
          getDate_at_C1_3[OF assms(5), simplified])
qed

lemma args_C1_3:
  "getinput_args [''convert_time'', ''49161360.0'', ''tt'', ''s'', ''utc'', ''d3'']
     = (0, 0, [], TT, SECS, 0, 0, 0, 0, 0)"
  by (simp add: getinput_args_def detect_def cidx_def readsys_def readform_def readform_code_def)

subsection \<open>What a set call leaves alone\<close>

lemma store_time_ref:
  "MJDrefint (store_time g t ts k x tot) = MJDrefint t"
  "MJDreffr (store_time g t ts k x tot) = MJDreffr t"
  "refLeaps (store_time g t ts k x tot) = refLeaps t"
  by (simp_all add: store_time_def Let_def split: prod.splits)

lemma set_mjd_ref:
  "MJDrefint (set_mjd g t ts k x) = MJDrefint t"
  "MJDreffr (set_mjd g t ts k x) = MJDreffr t"
  "refLeaps (set_mjd g t ts k x) = refLeaps t"
  by (simp_all add: set_mjd_def Let_def store_time_ref split: TimeSys.splits)

lemma set_secs_ref:
  "MJDrefint (set_secs g t ts tti ttf) = MJDrefint t"
  "MJDreffr (set_secs g t ts tti ttf) = MJDreffr t"
  "refLeaps (set_secs g t ts tti ttf) = refLeaps t"
  by (simp_all add: set_secs_def Let_def store_time_ref split: TimeSys.splits)

lemma set_time_ref:
  "MJDrefint (set_time g t tti ttf ts tf) = MJDrefint t"
  "MJDreffr (set_time g t tti ttf ts tf) = MJDreffr t"
  "refLeaps (set_time g t tti ttf ts tf) = refLeaps t"
  by (simp_all add: set_time_def set_mjd_ref set_secs_ref split: TimeFormat.splits)

lemma set_long_ref:
  assumes "mjdi \<le> 1"
  shows "MJDrefint (snd (set_long ev g t tti ttf ts tf mjdi mjdf)) = MJDrefint t"
    and "MJDreffr (snd (set_long ev g t tti ttf ts tf mjdi mjdf)) = MJDreffr t"
    and "refLeaps (snd (set_long ev g t tti ttf ts tf mjdi mjdf)) = refLeaps t"
  using assms by (simp_all add: set_long_def set_time_ref)

subsection \<open>The scenario of a malformed time\<close>






lemma replicate_pred_numeral: "replicate (numeral k) x = x # replicate (pred_numeral k) x"
  by (simp add: numeral_eq_Suc)




text \<open>
  A date string whose seconds read as an infinity or a NaN has all its other fields, and
  seconds written in hexadecimal are a number.
\<close>

lemma nonfinite_seconds_count:
  "nonfinite_seconds DATE s \<Longrightarrow> fst (sscanf_DATE s) = 4"
  "nonfinite_seconds CALDATE s \<Longrightarrow> fst (sscanf_CALDATE s) = 7"
  "nonfinite_seconds FITS s \<Longrightarrow> fst (sscanf_FITS s) = 5"
  by (auto simp: nonfinite_seconds_def seconds_input_def hms_seconds_def sscanf_DATE_def
        sscanf_CALDATE_def sscanf_FITS_def sscanf_hms_def split: option.splits)

lemma nonfinite_seconds_inf: "nonfinite_seconds DATE ''1999:204:23:54:inf''"
  by (simp add: nonfinite_seconds_def seconds_input_def hms_seconds_def scan_defs)

lemma sscanf_DATE_hex: "sscanf_DATE ''1999:204:23:54:0x1.8p5'' = (5, 1999, 204, 23, 54, 48)"
  apply (simp add: sscanf_DATE_def sscanf_hms_def scan_defs scan_hexadecimal_def isxdigit_def
        xdigit_val_def xdigits_val_def)
  apply (simp add: to_double_def fp_defs)
  done

subsection \<open>The calendar\<close>

lemma cdiv_nonneg: "0 \<le> a \<Longrightarrow> 0 < b \<Longrightarrow> cdiv a b = a div b"
  by (cases "a = 0") (simp_all add: cdiv_def)

lemma crem_nonneg: "0 \<le> a \<Longrightarrow> 0 < b \<Longrightarrow> crem a b = a mod b"
  by (simp add: crem_def cdiv_nonneg minus_mult_div_eq_mod)

lemma date_mjd_next:
  assumes "1969 \<le> y"
  shows "date_mjd y 366 = (if crem y 4 = 0 then date_mjd (y + 1) 1 - 1 else date_mjd (y + 1) 1)"
proof -
  have "cdiv (y - 1969) 4 = (y - 1969) div 4" "cdiv (y + 1 - 1969) 4 = (y + 1 - 1969) div 4"
    "crem y 4 = y mod 4"
    using assms by (simp_all add: cdiv_nonneg crem_nonneg)
  then show ?thesis
    unfolding date_mjd_def by (simp only:) presburger
qed

text \<open>
  The year loop undoes the day count of \<^verbatim>\<open>set\<close>, for any count \<open>D\<close> of the days before
  a year that grows by 366 after a year divisible by 4 and by 365 after any other.
\<close>

lemma year_loop_run:
  fixes D :: "int \<Rightarrow> int"
  assumes step: "\<And>y. 1972 \<le> y \<Longrightarrow> D (y + 1) = D y + (if y mod 4 = 0 then 366 else 365)"
    and mono: "\<And>y z. 1972 \<le> y \<Longrightarrow> y \<le> z \<Longrightarrow> D y \<le> D z"
    and "1972 \<le> y0" and "i = y0 mod 4" and "1 \<le> d"
    and "d \<le> (if (y0 + int n) mod 4 = 0 then 366 else 365)"
  shows "year_loop (D (y0 + int n) - D y0 + d) y0 i = (d, y0 + int n)"
  using assms(3-)
proof (induction n arbitrary: y0 i)
  case 0
  show ?case
  proof (cases "d = 366")
    case True
    with 0 have "i = 0" by (auto split: if_splits)
    with True show ?thesis by (simp add: year_loop_eval)
  next
    case False
    with 0 have "\<not> 365 < d" by (auto split: if_splits)
    then show ?thesis by (simp add: year_loop_eval)
  qed
next
  case (Suc n)
  define day where "day = D (y0 + int (Suc n)) - D y0 + d"
  have i4: "0 \<le> i" "i < 4" using Suc.prems by simp_all
  have nexti: "crem (i + 1) 4 = (y0 + 1) mod 4"
  proof -
    have "crem (i + 1) 4 = (i + 1) mod 4" using i4 by (simp add: crem_nonneg)
    also have "\<dots> = (y0 + 1) mod 4" using Suc.prems(2) by presburger
    finally show ?thesis .
  qed
  have e: "y0 + 1 + int n = y0 + int (Suc n)" by simp
  have p4: "d \<le> (if (y0 + 1 + int n) mod 4 = 0 then 366 else 365)"
    using Suc.prems(4) by (simp only: e)
  have "year_loop (D (y0 + 1 + int n) - D (y0 + 1) + d) (y0 + 1) ((y0 + 1) mod 4)
          = (d, y0 + 1 + int n)"
    using Suc.prems(1) by (intro Suc.IH [OF _ refl Suc.prems(3) p4]) linarith
  then have ih: "year_loop (D (y0 + int (Suc n)) - D (y0 + 1) + d) (y0 + 1) ((y0 + 1) mod 4)
          = (d, y0 + int (Suc n))"
    by (simp only: e)
  have s1: "D (y0 + 1) = D y0 + (if y0 mod 4 = 0 then 366 else 365)"
    using Suc.prems(1) by (rule step)
  have m1: "D (y0 + 1) \<le> D (y0 + int (Suc n))"
    by (rule mono) (use Suc.prems(1) in simp_all)
  show ?case
  proof (cases "i = 0")
    case True
    then have y4: "y0 mod 4 = 0" using Suc.prems by simp
    from s1 y4 have s2: "D (y0 + 1) = D y0 + 366" by simp
    have big: "365 < day" and ne: "day \<noteq> 366"
      and st: "day - 1 - 365 = D (y0 + int (Suc n)) - D (y0 + 1) + d"
      using s2 m1 Suc.prems(3) unfolding day_def by linarith+
    have "year_loop day y0 i = year_loop (day - 1 - 365) (y0 + 1) (crem (i + 1) 4)"
      using big True ne by (simp add: year_loop_eval)
    with st nexti ih show ?thesis unfolding day_def by (simp only:)
  next
    case False
    then have y4: "y0 mod 4 \<noteq> 0" using Suc.prems by simp
    from s1 y4 have s2: "D (y0 + 1) = D y0 + 365" by simp
    have big: "365 < day"
      and st: "day - 365 = D (y0 + int (Suc n)) - D (y0 + 1) + d"
      using s2 m1 Suc.prems(3) unfolding day_def by linarith+
    have "year_loop day y0 i = year_loop (day - 365) (y0 + 1) (crem (i + 1) 4)"
      using big False by (simp add: year_loop_eval)
    with st nexti ih show ?thesis unfolding day_def by (simp only:)
  qed
qed

lemma year_loop_date_mjd:
  assumes "1972 \<le> y" and "1 \<le> d" and "d \<le> (if crem y 4 = 0 then 366 else 365)"
  shows "year_loop (date_mjd y d - MJD1972 + 1) 1972 0 = (d, y)"
proof -
  define D :: "int \<Rightarrow> int" where "D = (\<lambda>y. (y - 1972) * 365 + (y - 1969) div 4)"
  have c: "cdiv (y - 1969) 4 = (y - 1969) div 4" "crem y 4 = y mod 4"
    using assms by (simp_all add: cdiv_nonneg crem_nonneg)
  have y: "1972 + int (nat (y - 1972)) = y" using assms by simp
  have d4: "d \<le> (if (1972 + int (nat (y - 1972))) mod 4 = 0 then 366 else 365)"
    using assms(3) c by (simp only: y)
  have step: "D (z + 1) = D z + (if z mod 4 = 0 then 366 else 365)" if "1972 \<le> z" for z
  proof -
    have "(z + 1 - 1969) div 4 = (z - 1969) div 4 + (if z mod 4 = 0 then 1 else 0)"
      by presburger
    then show ?thesis unfolding D_def by (simp add: algebra_simps)
  qed
  have mono: "D a \<le> D b" if "1972 \<le> a" "a \<le> b" for a b
  proof -
    have "(a - 1969) div 4 \<le> (b - 1969) div 4" using that by (intro zdiv_mono1) simp_all
    moreover have "(a - 1972) * 365 \<le> (b - 1972) * 365" using that by simp
    ultimately show ?thesis unfolding D_def by linarith
  qed
  have eq: "date_mjd y d - MJD1972 + 1 = D y - D 1972 + d"
    by (simp add: date_mjd_def c D_def)
  have "year_loop (D (1972 + int (nat (y - 1972))) - D 1972 + d) 1972 0
          = (d, 1972 + int (nat (y - 1972)))"
    by (rule year_loop_run [where D = D, OF step mono _ _ assms(2) d4]) simp_all
  then show ?thesis by (simp only: y eq)
qed

subsection \<open>The scenario of day 366\<close>

lemma sscanf_DATE_1999_366: "sscanf_DATE ''1999:366:00:00:00'' = (5, 1999, 366, 0, 0, 0)"
  apply (simp add: sscanf_DATE_def sscanf_hms_def scan_defs)
  apply (simp add: to_double_def fp_defs)
  done

lemma sscanf_DATE_2000_001: "sscanf_DATE ''2000:001:00:00:00'' = (5, 2000, 1, 0, 0, 0)"
  apply (simp add: sscanf_DATE_def sscanf_hms_def scan_defs)
  apply (simp add: to_double_def fp_defs)
  done

lemma sscanf_DATE_2000_366: "sscanf_DATE ''2000:366:12:00:00'' = (5, 2000, 366, 12, 0, 0)"
  apply (simp add: sscanf_DATE_def sscanf_hms_def scan_defs)
  apply (simp add: to_double_def fp_defs)
  done

lemma day_fraction_0: "day_fraction 0 0 0 = 0"
  by (simp add: day_fraction_def fp_defs)

lemma utc_idx_51544: "leapidx (LEAPSMJD globals26) 51544 (nat (NUMLEAPSECS globals26 - 1)) = 22"
  unfolding globals26_val globals0_def by (simp add: leapidx_eval)

lemma set_mjd_51544:
  assumes "timeZero m = 0"
  shows "set_mjd globals26 m UTC 51544 0 =
     m\<lparr>myLeaps := 32, MJDint := 51544, MJDfr := 856471225135253 / 2 ^ 60\<rparr>"
  unfolding set_mjd_def Let_def utc_idx_51544
  apply (simp add: assms)
  apply (simp add: globals26_val globals0_def)
  apply (simp add: store_time_def Let_def TAI2TT_val SEC2DAY_val)
  apply (simp add: fp_defs)
  done

lemma set_long_51544:
  assumes "timeZero m = 0"
  shows "set_long env0 globals26 m 51544 0 UTC MJD 0 0 =
     (globals26, m\<lparr>leapflag := 0, myLeaps := 32, MJDint := 51544,
                   MJDfr := 856471225135253 / 2 ^ 60\<rparr>)"
  using assms by (simp add: set_long_def set_time_def set_mjd_51544)

lemma XTime_str_1999_366:
  "XTime_str env0 globals0 m ''1999:366:00:00:00'' UTC DATE 0 0 =
     (globals26,
      m\<lparr>timeZero := 0, MJDrefint := 50814, MJDreffr := 0, refLeaps := 31,
        leapflag := 0, myLeaps := 32, MJDint := 51544, MJDfr := 856471225135253 / 2 ^ 60\<rparr>)"
  by (simp add: XTime_str_def globals26_def[symmetric] set_str_def date_fields_def
        sscanf_DATE_1999_366 date_mjd_def cdiv_def MJD1972_def day_fraction_0 set_long_51544
        MJDREFint_def MJDREFfr_def)

lemma XTime_str_2000_001:
  "XTime_str env0 globals0 m ''2000:001:00:00:00'' UTC DATE 0 0 =
     (globals26,
      m\<lparr>timeZero := 0, MJDrefint := 50814, MJDreffr := 0, refLeaps := 31,
        leapflag := 0, myLeaps := 32, MJDint := 51544, MJDfr := 856471225135253 / 2 ^ 60\<rparr>)"
  by (simp add: XTime_str_def globals26_def[symmetric] set_str_def date_fields_def
        sscanf_DATE_2000_001 date_mjd_def cdiv_def MJD1972_def day_fraction_0 set_long_51544
        MJDREFint_def MJDREFfr_def)

lemma UTmjd2_51544:
  assumes "MJDint T = 51544" "MJDfr T = 856471225135253 / 2 ^ 60" "timeZero T = 0" "myLeaps T = 32"
  shows "UTmjd2 T = (51544, 0)"
  unfolding UTmjd2_def Let_def assms TAI2TT_val SEC2DAY_val
  by (simp add: fp_defs)

lemma getDate_at_51544:
  assumes "leapflag T = 0"
  shows "getDate_at T UTC DATE 0 51544 0 = T\<lparr>tdate := ''2000:001:00:00:00''\<rparr>"
  unfolding getDate_at_def hms_plain_def Let_def assms
  by (simp add: DAY2SEC_def pow10d_def pow10_def fp_defs cdiv_def MJD1972_def year_loop_eval
        crem_def date_string_def fmt_defs replicate_pred_numeral)

lemma getDate_51544:
  assumes "MJDint T = 51544" "MJDfr T = 856471225135253 / 2 ^ 60" "timeZero T = 0" "myLeaps T = 32"
    "leapflag T = 0"
  shows "getDate T UTC DATE 0 kx = Some (T\<lparr>tdate := ''2000:001:00:00:00''\<rparr>)"
  unfolding getDate_def mjd_def
  by (simp add: UTmjd2_51544[OF assms(1-4)] assms(5) norm_lo_eval norm_hi_eval
        getDate_at_51544[OF assms(5)])

subsection \<open>The scenario of a time just before a day boundary\<close>

lemma atof_C8: "atof ''-1e-20'' = - (6646139978924579 / 2 ^ 119)"
  apply (simp add: scan_defs)
  apply (simp add: to_double_def fp_defs)
  done

lemma store_time_MJD:
  "MJDfr (store_time g t ts k x0 tot) =
     (if fsub (fadd x0 (fmul tot SEC2DAY)) (of_long (to_long (fadd x0 (fmul tot SEC2DAY)))) < 0
      then fadd (fsub (fadd x0 (fmul tot SEC2DAY)) (of_long (to_long (fadd x0 (fmul tot SEC2DAY))))) 1
      else fsub (fadd x0 (fmul tot SEC2DAY)) (of_long (to_long (fadd x0 (fmul tot SEC2DAY)))))"
  "MJDint (store_time g t ts k x0 tot) =
     (if fsub (fadd x0 (fmul tot SEC2DAY)) (of_long (to_long (fadd x0 (fmul tot SEC2DAY)))) < 0
      then k + to_long (fadd x0 (fmul tot SEC2DAY)) - 1
      else k + to_long (fadd x0 (fmul tot SEC2DAY)))"
  by (simp_all add: store_time_def Let_def split: prod.splits)

lemma store_time_C8:
  "MJDfr (store_time g t TT 0 (- (6646139978924579 / 2 ^ 119)) 0) = 1 \<and>
   MJDint (store_time g t TT 0 (- (6646139978924579 / 2 ^ 119)) 0) = - 1"
  unfolding store_time_MJD SEC2DAY_val by (simp add: fp_defs)

lemma XTime_C8:
  "MJDfr (snd (XTime_double env0 globals0 mem0 (- (6646139978924579 / 2 ^ 119)) TT MJD 0 0)) = 1 \<and>
   MJDint (snd (XTime_double env0 globals0 mem0 (- (6646139978924579 / 2 ^ 119)) TT MJD 0 0)) = - 1"
proof -
  have c: "to_long (- (6646139978924579 / 2 ^ 119)) = 0"
    "fsub (- (6646139978924579 / 2 ^ 119)) (of_long 0) = - (6646139978924579 / 2 ^ 119)"
    by (simp_all add: fp_defs)
  show ?thesis
    unfolding XTime_double_def set_double_def c set_long_def set_time_def set_mjd_def
    using store_time_C8 by simp
qed

subsection \<open>The scenario of a time shortly before a leap second\<close>

lemma atof_C4: "atof ''51179.0005'' = 7033988268462965 / 2 ^ 37"
  apply (simp add: scan_defs)
  apply (simp add: to_double_def fp_defs)
  done

lemma tai_mjd_C4: "tai_mjd 51179 (68719477 / 2 ^ 37) = 7033988217266955 / 2 ^ 37"
  unfolding tai_mjd_def TAI2TT_days_val by (simp add: fp_defs)

lemma setmyleaps_C4: "setmyleaps globals26 51179 (68719477 / 2 ^ 37) = (31, 1)"
  unfolding setmyleaps_def tai_mjd_C4 globals26_val globals0_def
  by (simp add: leapidx_eval fp_defs SEC2DAY_val)

lemma XTime_C4:
  "XTime_double env0 globals0 m (7033988268462965 / 2 ^ 37) TT MJD 0 0 =
     (globals26,
      m\<lparr>timeZero := 0, MJDrefint := 50814, MJDreffr := 0, refLeaps := 31,
        MJDint := 51179, MJDfr := 68719477 / 2 ^ 37, myLeaps := 31, leapflag := 1\<rparr>)"
  apply (simp add: XTime_double_def globals26_def[symmetric] set_double_def set_long_def set_time_def set_mjd_def)
  apply (simp add: fp_defs MJDREFint_def MJDREFfr_def REFLEAPS_def Let_def)
  apply (simp add: store_time_def Let_def)
  apply (simp add: fp_defs SEC2DAY_val)
  apply (simp add: setmyleaps_C4[simplified])
  done

lemma UTmjd2_C4:
  assumes "MJDint T = 51179" "MJDfr T = 68719477 / 2 ^ 37" "timeZero T = 0" "myLeaps T = 31"
  shows "UTmjd2 T = (51178, 9005115922930669 / 2 ^ 53)"
  unfolding UTmjd2_def Let_def assms TAI2TT_val SEC2DAY_val
  by (simp add: fp_defs)

lemma getDate_at_C4:
  assumes "leapflag T = 1"
  shows "getDate_at T UTC DATE 0 51178 (9005011672939295 / 2 ^ 53) = T\<lparr>tdate := ''1998:365:23:59:40''\<rparr>"
  unfolding getDate_at_def hms_leap_def Let_def assms
  by (simp add: DAY2SEC_def pow10d_def pow10_def fp_defs cdiv_def MJD1972_def year_loop_eval
        crem_def date_string_def fmt_defs)

lemma getDate_C4:
  assumes "MJDint T = 51179" "MJDfr T = 68719477 / 2 ^ 37" "timeZero T = 0" "myLeaps T = 31"
    "leapflag T = 1"
  shows "getDate T UTC DATE 0 kx = Some (T\<lparr>tdate := ''1998:365:23:59:40''\<rparr>)"
proof -
  have s: "fsub (9005115922930669 / 9007199254740992) SEC2DAY = 9005011672939295 / 9007199254740992"
    unfolding SEC2DAY_val by (simp add: fp_defs)
  have n: "norm_lo 51178 (9005011672939295 / 2 ^ 53) = Some (51178, 9005011672939295 / 2 ^ 53)"
    by (simp add: norm_lo_eval)
  have h: "norm_hi 51178 (9005011672939295 / 2 ^ 53) = Some (51178, 9005011672939295 / 2 ^ 53)"
    by (simp add: norm_hi_eval)
  show ?thesis
    unfolding getDate_def mjd_def
    by (simp add: UTmjd2_C4[OF assms(1-4)] assms(5) s n[simplified] h[simplified]
          getDate_at_C4[OF assms(5), simplified])
qed

section \<open>Properties\<close>

text \<open>
  C2. For every epoch, \<^verbatim>\<open>get(UTC, SECS)\<close> is \<^verbatim>\<open>get(MET, SECS)\<close> minus the cached
  leap seconds at this instant plus the cached leap seconds at the reference epoch, as
  the double expression \<^verbatim>\<open>MET - myLeaps + refLeaps\<close> computes it.
\<close>

theorem C2_utc_secs_from_met:
  "get t UTC SECS = fadd (fsub (get t MET SECS) (myLeaps t)) (refLeaps t)"
  by (simp add: get_def getUTC_def getMET_def)


text \<open>
  C3 (as amended). For every epoch \<^verbatim>\<open>get(TAI, SECS)\<close>, \<^verbatim>\<open>get(TT, SECS)\<close> and
  \<^verbatim>\<open>get(MET, SECS)\<close> return the same value. \<^verbatim>\<open>TAImjd()\<close> is \<^verbatim>\<open>TTmjd()\<close> minus the
  double \<^verbatim>\<open>TAI2TT * SEC2DAY\<close>, rounded: the difference \<^verbatim>\<open>TTmjd() - TAImjd()\<close> is that
  constant up to a rounding error of at most \<open>2 ^ - 53\<close> of the TAI value (or
  \<open>2 ^ - 1075\<close>), and not exactly.
\<close>

theorem C3_tai_tt_views:
  "get t TAI SECS = get t TT SECS \<and> get t TT SECS = get t MET SECS \<and>
   \<bar>(TTmjd t - TAImjd t) - fmul TAI2TT SEC2DAY\<bar>
     \<le> max (\<bar>TTmjd t - fmul TAI2TT SEC2DAY\<bar> / 2 ^ 53) (1 / 2 ^ 1075)"
proof -
  have "\<bar>rnd (TTmjd t - fmul TAI2TT SEC2DAY) - (TTmjd t - fmul TAI2TT SEC2DAY)\<bar>
          \<le> max (\<bar>TTmjd t - fmul TAI2TT SEC2DAY\<bar> / 2 ^ 53) (1 / 2 ^ 1075)"
    by (rule rnd_rel_error)
  moreover have "\<bar>(TTmjd t - TAImjd t) - fmul TAI2TT SEC2DAY\<bar>
      = \<bar>rnd (TTmjd t - fmul TAI2TT SEC2DAY) - (TTmjd t - fmul TAI2TT SEC2DAY)\<bar>"
    unfolding TAImjd_def fsub_def by (simp add: abs_minus_commute algebra_simps)
  ultimately show ?thesis
    by (simp add: get_def getTAI_def getTT_def)
qed

text \<open>
  C3 as stated fails at the default epoch (MJD 50814.0): the difference of the two MJD
  views is neither the double \<^verbatim>\<open>TAI2TT * SEC2DAY\<close> nor the exact quotient 32.184 / 86400,
  whether it is taken exactly or as a double subtraction, and it differs from the
  difference at the epoch MJD 10000.0.
\<close>

theorem C3_counterexample:
  "TTmjd (snd (XTime_void env0 globals0 mem0)) - TAImjd (snd (XTime_void env0 globals0 mem0))
     \<noteq> fmul TAI2TT SEC2DAY \<and>
   TTmjd (snd (XTime_void env0 globals0 mem0)) - TAImjd (snd (XTime_void env0 globals0 mem0))
     \<noteq> 32184 / 1000 / 86400 \<and>
   fsub (TTmjd (snd (XTime_void env0 globals0 mem0))) (TAImjd (snd (XTime_void env0 globals0 mem0)))
     \<noteq> fmul TAI2TT SEC2DAY \<and>
   TTmjd (snd (XTime_void env0 globals0 mem0)) - TAImjd (snd (XTime_void env0 globals0 mem0))
     \<noteq> TTmjd (snd (XTime_long env0 globals0 mem0 10000 0 TT MJD 0 0))
        - TAImjd (snd (XTime_long env0 globals0 mem0 10000 0 TT MJD 0 0))"
  unfolding XTime_void_val XTime_long_10000_val TTmjd_def TAImjd_def TAI2TT_days_val
  by (simp add: fp_defs)

text \<open>
  C10. For a range whose emptiness flag is set, \<^verbatim>\<open>totalTime()\<close> is 0 and
  \<^verbatim>\<open>isInRange(t)\<close> is never 0: it is -1 for a time before the start and 1 for every
  other time.
\<close>

theorem C10_empty_range:
  "empty_flag r \<noteq> 0 \<Longrightarrow>
     totalTime r = 0 \<and> isInRange r t \<noteq> 0 \<and> isInRange r t = (if t < METStart r then - 1 else 1)"
  by (simp add: totalTime_def isInRange_def METStart_def)

theorem C10_witness:
  "empty_flag (snd (XTimeRange_void env0 (globals26\<lparr>NUMOBJECTS := 1\<rparr>) mem0 mem0)) \<noteq> 0 \<and>
   totalTime (snd (XTimeRange_void env0 (globals26\<lparr>NUMOBJECTS := 1\<rparr>) mem0 mem0)) = 0 \<and>
   isInRange (snd (XTimeRange_void env0 (globals26\<lparr>NUMOBJECTS := 1\<rparr>) mem0 mem0)) 0 = 1 \<and>
   isInRange (snd (XTimeRange_void env0 (globals26\<lparr>NUMOBJECTS := 1\<rparr>) mem0 mem0)) (- 5) = - 1"
  using C10_empty_range [of "snd (XTimeRange_void env0 (globals26\<lparr>NUMOBJECTS := 1\<rparr>) mem0 mem0)" 0]
        C10_empty_range [of "snd (XTimeRange_void env0 (globals26\<lparr>NUMOBJECTS := 1\<rparr>) mem0 mem0)" "- 5"]
  unfolding XTimeRange_void_val
  by (simp add: METStart_def getMET_def DAY2SEC_def fp_defs)

text \<open>
  C5 (as amended). Across every refresh the number of entries never decreases. If the
  file read yields fewer entries than are known, or a read error occurs, the number of
  entries stays what it was, and after a refresh that is not forced (\<^verbatim>\<open>dt >= 0\<close>) every
  pair of the table is what it was. The refresh is a total function: nothing is raised.
\<close>

theorem C5_refresh:
  "NUMLEAPSECS g \<le> NUMLEAPSECS (setleaps ev dt g) \<and>
   (leapsource ev = Some f \<and> (int (yielded f) < NUMLEAPSECS g \<or> ferr f) \<longrightarrow>
      NUMLEAPSECS (setleaps ev dt g) = NUMLEAPSECS g \<and>
      (0 \<le> dt \<longrightarrow> leaptable (setleaps ev dt g) = leaptable g))"
proof (intro conjI impI)
  show "NUMLEAPSECS g \<le> NUMLEAPSECS (setleaps ev dt g)"
  proof (cases "leapsource ev")
    case None
    then show ?thesis by (simp add: setleaps_def Let_def)
  next
    case (Some f')
    obtain nums lm ls where
      "readleaps (dt < 0) (NUMLEAPSECS g) (entries f') (0, LEAPSMJD g, LEAPSECS g) = (nums, lm, ls)"
      by (metis prod_cases3)
    with Some show ?thesis by (simp add: setleaps_def Let_def)
  qed
next
  assume a: "leapsource ev = Some f \<and> (int (yielded f) < NUMLEAPSECS g \<or> ferr f)"
  obtain nums lm ls where
    r: "readleaps (dt < 0) (NUMLEAPSECS g) (entries f) (0, LEAPSMJD g, LEAPSECS g) = (nums, lm, ls)"
    by (metis prod_cases3)
  have "nums \<le> int (yielded f)"
    using readleaps_count [of "dt < 0" "NUMLEAPSECS g" "entries f" 0 "LEAPSMJD g" "LEAPSECS g"]
    by (simp add: r yielded_def)
  with a have bad: "\<not> (NUMLEAPSECS g \<le> nums \<and> \<not> ferr f)" by auto
  show same: "NUMLEAPSECS (setleaps ev dt g) = NUMLEAPSECS g"
    using a r bad by (simp add: setleaps_def Let_def)
  assume dt: "0 \<le> dt"
  show "leaptable (setleaps ev dt g) = leaptable g"
  proof (cases "0 < NUMLEAPSECS g")
    case True
    then have "readleaps False (NUMLEAPSECS g) (entries f) (0, LEAPSMJD g, LEAPSECS g)
                 = (0, LEAPSMJD g, LEAPSECS g)"
      by (rule readleaps_keep)
    with a dt True show ?thesis
      by (simp add: setleaps_def Let_def leaptable_def)
  next
    case False
    with same show ?thesis by (simp add: leaptable_def)
  qed
qed

text \<open>
  C5 as stated fails for a forced refresh (\<^verbatim>\<open>dt < 0\<close>): the loop overwrites the arrays in
  place while it reads, so a file of one record, fewer than the 26 known, leaves the count
  at 26 and changes the first pair of the table.
\<close>

theorem C5_counterexample:
  "leapsource env1 = Some file1 \<and> int (yielded file1) < NUMLEAPSECS globals26 \<and>
   leaptable (setleaps env1 (- 1) globals26) \<noteq> leaptable globals26"
  by (simp add: leapsource_def env1_def yielded_def file1_def globals26_val globals0_def
        setleaps_def leaptable_def fp_defs)

theorem C5_witness:
  "leapsource env1 = Some file1 \<and> int (yielded file1) < NUMLEAPSECS globals26 \<and>
   NUMLEAPSECS (setleaps env1 5000000 globals26) = 26 \<and>
   leaptable (setleaps env1 5000000 globals26) = leaptable globals26"
  using C5_refresh [of globals26 env1 5000000 file1]
  by (simp add: leapsource_def env1_def yielded_def file1_def globals26_val globals0_def)

text \<open>
  C4 fails for the in-leap-second result. The TT instant MJD 51179.0005 is 1998-12-31
  23:59:40 UTC, 20 seconds before the leap second that ends that day. The lookup returns
  the count 31, which is the count of the last entry whose epoch is at most the instant in
  UTC, and it reports a leap second, although the instant is not within the final second
  before the epoch of any entry, neither as the TT query nor as its UTC time. The
  constructor of an epoch from that TT number leaves the flag set in the object, whose
  UTC date \<^verbatim>\<open>getDate\<close> prints as \<^verbatim>\<open>"1998:365:23:59:40"\<close>.
\<close>

theorem C4_leap_second_flag:
  "setmyleaps globals26 51179 (rnd (5 / 10000)) = (31, 1) \<and>
   spec_leapcount globals26 (51179 + rnd (5 / 10000) - (32184 / 1000 + 31) / 86400) = 31 \<and>
   \<not> spec_inleap globals26 (51179 + rnd (5 / 10000) - (32184 / 1000 + 31) / 86400) \<and>
   \<not> spec_inleap globals26 (51179 + rnd (5 / 10000)) \<and>
   leapflag (snd (XTime_double env0 globals0 mem0 (atof ''51179.0005'') TT MJD 0 0)) = 1 \<and>
   map_option tdate
     (getDate (snd (XTime_double env0 globals0 mem0 (atof ''51179.0005'') TT MJD 0 0)) UTC DATE 0 (0, 0))
     = Some ''1998:365:23:59:40''"
  unfolding setmyleaps_51179 spec_leapcount_def spec_inleap_def leaptable26 atof_C4 XTime_C4
  by (simp add: fp_defs getDate_C4)

text \<open>
  C1 (as amended). In a process that finds no leap second file, the entry point turns
  \<^verbatim>\<open>"49161360.0"\<close>, TT seconds, into the UTC date \<^verbatim>\<open>"1999:204:23:54:56"\<close> for the
  output format \<^verbatim>\<open>"d"\<close> (no decimals: the seconds 55.816 are rounded to 56), and
  into \<^verbatim>\<open>"1999:204:23:54:55.816"\<close> for \<^verbatim>\<open>"d3"\<close>, whatever its locals held before.
\<close>

theorem C1_seconds_to_date:
  "axTime3 env0 globals0 u ''49161360.0'' ''tt'' ''s'' ''utc'' ''d''
     = Some (globals26\<lparr>NUMOBJECTS := 0\<rparr>, ''1999:204:23:54:56'') \<and>
   axTime3 env0 globals0 u ''49161360.0'' ''tt'' ''s'' ''utc'' ''d3''
     = Some (globals26\<lparr>NUMOBJECTS := 0\<rparr>, ''1999:204:23:54:55.816'')"
proof
  show "axTime3 env0 globals0 u ''49161360.0'' ''tt'' ''s'' ''utc'' ''d''
     = Some (globals26\<lparr>NUMOBJECTS := 0\<rparr>, ''1999:204:23:54:56'')"
    unfolding axTime3_def getinput_def args_C1
    by (simp add: atof_C1 XTime_C1 out_C1 getDate_C1 globals26_val)
  show "axTime3 env0 globals0 u ''49161360.0'' ''tt'' ''s'' ''utc'' ''d3''
     = Some (globals26\<lparr>NUMOBJECTS := 0\<rparr>, ''1999:204:23:54:55.816'')"
    unfolding axTime3_def getinput_def args_C1_3
    by (simp add: atof_C1 XTime_C1 out_C1 getDate_C1_3 globals26_val)
qed

text \<open>
  C1 as stated fails: for the format \<^verbatim>\<open>"d"\<close> the string returned does not begin with
  \<^verbatim>\<open>"1999:204:23:54:55.816"\<close>.
\<close>

theorem C1_counterexample:
  "map_option (take 21 \<circ> snd) (axTime3 env0 globals0 indet0 ''49161360.0'' ''tt'' ''s'' ''utc'' ''d'')
     \<noteq> Some ''1999:204:23:54:55.816''"
  unfolding axTime3_def getinput_def args_C1
  by (simp add: atof_C1 XTime_C1 out_C1 getDate_C1 globals26_val)

text \<open>
  C9. In every set call (from a long and a double, from one double, from a date string)
  with a reference MJD whose integer part is at most 1, the reference MJD of the object
  and its cached leap seconds keep their values, whatever the fractional part.
\<close>

theorem C9_reference_frame:
  "mjdi \<le> 1 \<Longrightarrow>
     (MJDrefint (snd (set_long ev g t tti ttf ts tf mjdi mjdf)) = MJDrefint t \<and>
      MJDreffr (snd (set_long ev g t tti ttf ts tf mjdi mjdf)) = MJDreffr t \<and>
      refLeaps (snd (set_long ev g t tti ttf ts tf mjdi mjdf)) = refLeaps t) \<and>
     (MJDrefint (snd (set_double ev g t tt ts tf mjdi mjdf)) = MJDrefint t \<and>
      MJDreffr (snd (set_double ev g t tt ts tf mjdi mjdf)) = MJDreffr t \<and>
      refLeaps (snd (set_double ev g t tt ts tf mjdi mjdf)) = refLeaps t) \<and>
     (MJDrefint (snd (set_str ev g t date ts tf mjdi mjdf)) = MJDrefint t \<and>
      MJDreffr (snd (set_str ev g t date ts tf mjdi mjdf)) = MJDreffr t \<and>
      refLeaps (snd (set_str ev g t date ts tf mjdi mjdf)) = refLeaps t)"
  by (simp add: set_double_def set_str_def set_long_ref split: option.splits)

text \<open>
  With the integer part 1 the three fields of the zeroed object stay 0; with 2 the
  reference MJD becomes 2.
\<close>

theorem C9_witness:
  "(1::int) \<le> 1 \<and>
   MJDrefint (snd (set_long env0 globals26 mem0 51382 0 TT MJD 1 (1 / 4))) = 0 \<and>
   MJDreffr (snd (set_long env0 globals26 mem0 51382 0 TT MJD 1 (1 / 4))) = 0 \<and>
   refLeaps (snd (set_long env0 globals26 mem0 51382 0 TT MJD 1 (1 / 4))) = 0 \<and>
   MJDrefint (snd (set_long env0 globals26 mem0 51382 0 TT MJD 2 (1 / 4))) = 2"
  using C9_reference_frame [of 1 env0 globals26 mem0 51382 0 TT MJD "1 / 4"]
  by (simp add: mem0_def set_long_def set_ref_def set_time_ref)




text \<open>
  C7 (as amended). \<^verbatim>\<open>set\<close> rejects no day of the year: a date string that scans as day
  366 of year \<open>y\<close> sets the time of MJD \<open>date_mjd y 366\<close> whatever \<open>y\<close> is. From 1969
  on that day is the last day of year \<open>y\<close> when \<^verbatim>\<open>y % 4 == 0\<close>, and the first day of
  year \<open>y + 1\<close> otherwise. The leap year rule is \<^verbatim>\<open>year % 4 == 0\<close> throughout: in the
  February of the month table, and in the year loop of \<^verbatim>\<open>getDate\<close>, which from 1972 on
  returns to day \<open>d\<close> of year \<open>y\<close> from the MJD \<open>date_mjd y d\<close> for every day up to
  365, or 366 in such a year.
\<close>

theorem C7_day_366:
  "(sscanf_DATE date = (5, y, 366, h, mi, sec) \<longrightarrow>
      set_str ev g t date ts DATE mjdi mjdf =
        set_long ev g t (date_mjd y 366) (day_fraction h mi sec) ts MJD mjdi mjdf) \<and>
   (1969 \<le> y \<longrightarrow>
      date_mjd y 366 = (if crem y 4 = 0 then date_mjd (y + 1) 1 - 1 else date_mjd (y + 1) 1)) \<and>
   daymonth y ! 1 = (if crem y 4 = 0 then 29 else 28) \<and>
   (1972 \<le> y \<and> 1 \<le> d \<and> d \<le> (if crem y 4 = 0 then 366 else 365) \<longrightarrow>
      year_loop (date_mjd y d - MJD1972 + 1) 1972 0 = (d, y))"
  by (simp add: set_str_def date_fields_def date_mjd_next year_loop_date_mjd daymonth_def)

text \<open>
  C7 as stated fails for 1999, which is not divisible by 4: the date string of its day
  366 is not rejected. It constructs the same epoch as the first day of 2000, MJD 51544,
  and \<^verbatim>\<open>getDate\<close> prints it as such.
\<close>

theorem C7_counterexample:
  "crem 1999 4 \<noteq> 0 \<and>
   XTime_str env0 globals0 mem0 ''1999:366:00:00:00'' UTC DATE 0 0
     = XTime_str env0 globals0 mem0 ''2000:001:00:00:00'' UTC DATE 0 0 \<and>
   MJDint (snd (XTime_str env0 globals0 mem0 ''1999:366:00:00:00'' UTC DATE 0 0)) = 51544 \<and>
   map_option tdate
     (getDate (snd (XTime_str env0 globals0 mem0 ''1999:366:00:00:00'' UTC DATE 0 0)) UTC DATE 0 (0, 0))
     = Some ''2000:001:00:00:00''"
  unfolding XTime_str_1999_366 XTime_str_2000_001
  by (simp add: crem_def cdiv_def getDate_51544)

text \<open>Day 366 of 2000 at noon: the day before the first day of 2001, and printed back as day 366.\<close>

theorem C7_witness:
  "sscanf_DATE ''2000:366:12:00:00'' = (5, 2000, 366, 12, 0, 0) \<and>
   set_str env0 globals26 mem0 ''2000:366:12:00:00'' UTC DATE 0 0 =
     set_long env0 globals26 mem0 51909 (day_fraction 12 0 0) UTC MJD 0 0 \<and>
   date_mjd 2001 1 = 51910 \<and>
   year_loop (51909 - MJD1972 + 1) 1972 0 = (366, 2000)"
  using C7_day_366 [of "''2000:366:12:00:00''" 2000 12 0 0 env0 globals26 mem0 UTC 0 0 366]
  by (simp add: sscanf_DATE_2000_366 crem_def cdiv_def date_mjd_def MJD1972_def)

text \<open>
  C8 fails for a time less than \<open>2 ^ - 54\<close> of a day before a day boundary. The MJD
  \<^verbatim>\<open>-1e-20\<close> in TT has the integer part 0 and a negative fraction; \<^verbatim>\<open>set\<close> adds 1 to
  the fraction, which rounds to 1.0, and stores the fraction 1.0 with the integer part -1.
\<close>

theorem C8_fraction_one:
  "MJDfr (snd (XTime_double env0 globals0 mem0 (atof ''-1e-20'') TT MJD 0 0)) = 1 \<and>
   MJDint (snd (XTime_double env0 globals0 mem0 (atof ''-1e-20'') TT MJD 0 0)) = - 1"
  unfolding atof_C8 by (rule XTime_C8)

end
